theory Spec2Isabelle
  imports Complex_Main "HOL-Library.AList"
begin

section \<open>Vehicle monitoring: data model\<close>

text \<open>
  The embedding follows \<^verbatim>\<open>vehicle_monitoring_system.py\<close> (class \<^verbatim>\<open>VehicleMonitor\<close>)
  and \<^verbatim>\<open>dtc_parser.py\<close> (\<^verbatim>\<open>merge_dtc_databases\<close>).
  Python numbers (ints and floats of the tables, \<^verbatim>\<open>time.time()\<close>) are read as
  real numbers. A timestamp string is \<open>None\<close> for the empty string \<^verbatim>\<open>''\<close> and
  \<open>Some t\<close> for \<^verbatim>\<open>t.isoformat()\<close>, which \<^verbatim>\<open>datetime.fromisoformat\<close> reads back
  as \<open>t\<close>. A Python dict is a map, a method that mutates \<^verbatim>\<open>self\<close> returns the new
  object, and a call yields an outcome (the returned flag, or the exception raised)
  together with the object as the call leaves it.
\<close>

datatype status = Unknown | Normal | Warning | Critical

datatype exn = KeyError string | ValueError

datatype outcome = Returned bool | Raised exn

record param_info =
  pid :: string
  param_name :: string
  param_unit :: string
  min_normal :: "real option"
  max_normal :: "real option"
  warning_threshold :: "real option"
  critical_threshold :: "real option"
  priority :: string
  polling_rate :: real
  description :: string

record profile =
  profile_name :: string
  profile_description :: string
  profile_parameters :: "string list"
  polling_interval :: real
  alert_threshold :: status

text \<open>
  The two module-level tables. The functions below take them as an explicit argument, so
  that a statement can range over every catalog; the tables of the source are the
  constants \<open>MONITORING_PARAMETERS\<close> and \<open>MONITORING_PROFILES\<close>.
\<close>

record config =
  parameters_table :: "(string \<times> (string \<times> param_info) list) list"
  profiles_table :: "(string \<times> profile) list"

definition degree_C :: string where
  "degree_C = [CHR 0xC2, CHR 0xB0, CHR ''C'']"

definition MONITORING_PARAMETERS :: "(string \<times> (string \<times> param_info) list) list" where
  "MONITORING_PARAMETERS =
    [(''ENGINE_PARAMETERS'',
       [(''RPM'', \<lparr>pid = ''010C'', param_name = ''Engine RPM'', param_unit = ''rpm'',
           min_normal = Some 600, max_normal = Some 6500,
           warning_threshold = Some 6000, critical_threshold = Some 6500,
           priority = ''high'', polling_rate = 1,
           description = ''Engine revolutions per minute''\<rparr>),
        (''LOAD'', \<lparr>pid = ''0104'', param_name = ''Engine Load'', param_unit = ''%'',
           min_normal = Some 0, max_normal = Some 85,
           warning_threshold = Some 85, critical_threshold = Some 95,
           priority = ''medium'', polling_rate = 2,
           description = ''Calculated engine load value''\<rparr>),
        (''COOLANT_TEMP'', \<lparr>pid = ''0105'', param_name = ''Coolant Temperature'',
           param_unit = degree_C,
           min_normal = Some 75, max_normal = Some 105,
           warning_threshold = Some 105, critical_threshold = Some 115,
           priority = ''high'', polling_rate = 5,
           description = ''Engine coolant temperature''\<rparr>),
        (''INTAKE_TEMP'', \<lparr>pid = ''010F'', param_name = ''Intake Air Temperature'',
           param_unit = degree_C,
           min_normal = Some (- 10), max_normal = Some 70,
           warning_threshold = Some 70, critical_threshold = Some 85,
           priority = ''low'', polling_rate = 10,
           description = ''Intake air temperature''\<rparr>),
        (''MAF'', \<lparr>pid = ''0110'', param_name = ''MAF Air Flow Rate'', param_unit = ''g/s'',
           min_normal = Some 0, max_normal = Some 250,
           warning_threshold = None, critical_threshold = None,
           priority = ''low'', polling_rate = 5,
           description = ''Mass air flow sensor air flow rate''\<rparr>),
        (''THROTTLE'', \<lparr>pid = ''0111'', param_name = ''Throttle Position'', param_unit = ''%'',
           min_normal = Some 0, max_normal = Some 100,
           warning_threshold = None, critical_threshold = None,
           priority = ''medium'', polling_rate = 2,
           description = ''Absolute throttle position''\<rparr>)]),
     (''VEHICLE_PARAMETERS'',
       [(''SPEED'', \<lparr>pid = ''010D'', param_name = ''Vehicle Speed'', param_unit = ''km/h'',
           min_normal = Some 0, max_normal = Some 200,
           warning_threshold = None, critical_threshold = None,
           priority = ''high'', polling_rate = 1,
           description = ''Vehicle speed''\<rparr>),
        (''RUNTIME'', \<lparr>pid = ''011F'', param_name = ''Run Time'', param_unit = ''seconds'',
           min_normal = Some 0, max_normal = None,
           warning_threshold = None, critical_threshold = None,
           priority = ''low'', polling_rate = 60,
           description = ''Run time since engine start''\<rparr>)]),
     (''FUEL_PARAMETERS'',
       [(''FUEL_PRESSURE'', \<lparr>pid = ''010A'', param_name = ''Fuel Pressure'', param_unit = ''kPa'',
           min_normal = Some 350, max_normal = Some 500,
           warning_threshold = Some 300, critical_threshold = Some 250,
           priority = ''medium'', polling_rate = 5,
           description = ''Fuel pressure''\<rparr>),
        (''FUEL_LEVEL'', \<lparr>pid = ''012F'', param_name = ''Fuel Level'', param_unit = ''%'',
           min_normal = Some 10, max_normal = Some 100,
           warning_threshold = Some 10, critical_threshold = Some 5,
           priority = ''medium'', polling_rate = 30,
           description = ''Fuel tank level input''\<rparr>),
        (''FUEL_RATE'', \<lparr>pid = ''015E'', param_name = ''Fuel Rate'', param_unit = ''L/h'',
           min_normal = Some 0, max_normal = Some 30,
           warning_threshold = None, critical_threshold = None,
           priority = ''low'', polling_rate = 5,
           description = ''Engine fuel rate''\<rparr>)]),
     (''EMISSIONS_PARAMETERS'',
       [(''O2_VOLTAGE'', \<lparr>pid = ''0114'', param_name = ''O2 Sensor Voltage'', param_unit = ''V'',
           min_normal = Some 0, max_normal = Some (11 / 10),
           warning_threshold = None, critical_threshold = None,
           priority = ''low'', polling_rate = 5,
           description = ''O2 sensor voltage''\<rparr>),
        (''CATALYST_TEMP'', \<lparr>pid = ''013C'', param_name = ''Catalyst Temperature'',
           param_unit = degree_C,
           min_normal = Some 300, max_normal = Some 900,
           warning_threshold = Some 900, critical_threshold = Some 950,
           priority = ''medium'', polling_rate = 10,
           description = ''Catalyst temperature''\<rparr>)])]"

definition MONITORING_PROFILES :: "(string \<times> profile) list" where
  "MONITORING_PROFILES =
    [(''STANDARD'', \<lparr>profile_name = ''Standard Monitoring'',
        profile_description = ''Basic vehicle monitoring for everyday driving'',
        profile_parameters =
          [''ENGINE_PARAMETERS.RPM'', ''ENGINE_PARAMETERS.COOLANT_TEMP'',
           ''VEHICLE_PARAMETERS.SPEED'', ''FUEL_PARAMETERS.FUEL_LEVEL''],
        polling_interval = 5, alert_threshold = Warning\<rparr>),
     (''PERFORMANCE'', \<lparr>profile_name = ''Performance Monitoring'',
        profile_description = ''Enhanced monitoring for performance driving'',
        profile_parameters =
          [''ENGINE_PARAMETERS.RPM'', ''ENGINE_PARAMETERS.LOAD'',
           ''ENGINE_PARAMETERS.COOLANT_TEMP'', ''ENGINE_PARAMETERS.INTAKE_TEMP'',
           ''ENGINE_PARAMETERS.MAF'', ''ENGINE_PARAMETERS.THROTTLE'',
           ''VEHICLE_PARAMETERS.SPEED'', ''FUEL_PARAMETERS.FUEL_PRESSURE'',
           ''FUEL_PARAMETERS.FUEL_RATE'', ''EMISSIONS_PARAMETERS.CATALYST_TEMP''],
        polling_interval = 1, alert_threshold = Warning\<rparr>),
     (''ECONOMY'', \<lparr>profile_name = ''Economy Monitoring'',
        profile_description = ''Monitoring focused on fuel efficiency'',
        profile_parameters =
          [''ENGINE_PARAMETERS.RPM'', ''ENGINE_PARAMETERS.LOAD'',
           ''ENGINE_PARAMETERS.THROTTLE'', ''VEHICLE_PARAMETERS.SPEED'',
           ''FUEL_PARAMETERS.FUEL_LEVEL'', ''FUEL_PARAMETERS.FUEL_RATE''],
        polling_interval = 10, alert_threshold = Warning\<rparr>),
     (''DIAGNOSTIC'', \<lparr>profile_name = ''Diagnostic Monitoring'',
        profile_description = ''Comprehensive monitoring for diagnosing issues'',
        profile_parameters =
          [''ENGINE_PARAMETERS.RPM'', ''ENGINE_PARAMETERS.LOAD'',
           ''ENGINE_PARAMETERS.COOLANT_TEMP'', ''ENGINE_PARAMETERS.INTAKE_TEMP'',
           ''ENGINE_PARAMETERS.MAF'', ''ENGINE_PARAMETERS.THROTTLE'',
           ''VEHICLE_PARAMETERS.SPEED'', ''VEHICLE_PARAMETERS.RUNTIME'',
           ''FUEL_PARAMETERS.FUEL_PRESSURE'', ''FUEL_PARAMETERS.FUEL_LEVEL'',
           ''FUEL_PARAMETERS.FUEL_RATE'', ''EMISSIONS_PARAMETERS.O2_VOLTAGE'',
           ''EMISSIONS_PARAMETERS.CATALYST_TEMP''],
        polling_interval = 2, alert_threshold = Warning\<rparr>)]"

definition source_tables :: config where
  "source_tables =
     \<lparr>parameters_table = MONITORING_PARAMETERS, profiles_table = MONITORING_PROFILES\<rparr>"

subsection \<open>Resolving a parameter path\<close>

text \<open>
  \<^verbatim>\<open>param_path.split('.')\<close>: the pieces between the separators, empty pieces kept.
\<close>

fun split_on :: "char \<Rightarrow> string \<Rightarrow> string list" where
  "split_on c [] = [[]]"
| "split_on c (x # xs) =
     (if x = c then [] # split_on c xs
      else (case split_on c xs of
              [] \<Rightarrow> [[x]]
            | w # ws \<Rightarrow> (x # w) # ws))"

text \<open>
  \<^verbatim>\<open>category, param = param_path.split('.')\<close> raises ValueError unless there are
  exactly two pieces; \<^verbatim>\<open>MONITORING_PARAMETERS[category][param]\<close> raises KeyError on
  a missing key.
\<close>

definition lookup_param :: "config \<Rightarrow> string \<Rightarrow> exn + param_info" where
  "lookup_param cfg param_path =
     (case split_on CHR ''.'' param_path of
        [category, param] \<Rightarrow>
          (case map_of (parameters_table cfg) category of
             None \<Rightarrow> Inl (KeyError category)
           | Some tbl \<Rightarrow>
               (case map_of tbl param of
                  None \<Rightarrow> Inl (KeyError param)
                | Some d \<Rightarrow> Inr d))
      | _ \<Rightarrow> Inl ValueError)"

subsection \<open>Status evaluator\<close>

datatype direction = Above | Below

text \<open>
  Modelled from the spec: \<^verbatim>\<open>determine_parameter_status\<close> is called by
  \<^verbatim>\<open>update_parameters\<close> but its body is not part of the sources. Section 4.3 of
  the specification gives the algorithm: an absent value is unknown; a defined critical
  threshold that the value has crossed gives critical; else a defined warning threshold
  that the value has crossed gives warning; else a value within
  \<open>[minNormal, maxNormal]\<close> (an absent bound is open) is normal; else warning.
  The direction of a crossing is inferred from the critical threshold: it lies above
  \<open>maxNormal\<close> (reaching it counts, as the RPM example of the specification needs) or
  else below \<open>minNormal\<close>; the warning threshold deviates in the same direction
  (section 3), and a definition with a warning threshold only infers it from that one.
  A threshold is crossed when the value has reached it in that direction.
\<close>

definition threshold_direction :: "param_info \<Rightarrow> real \<Rightarrow> direction" where
  "threshold_direction d t =
     (case max_normal d of
        Some mx \<Rightarrow> (if mx \<le> t then Above else Below)
      | None \<Rightarrow> Below)"

definition direction_of :: "param_info \<Rightarrow> direction" where
  "direction_of d =
     (case critical_threshold d of
        Some c \<Rightarrow> threshold_direction d c
      | None \<Rightarrow>
          (case warning_threshold d of
             Some w \<Rightarrow> threshold_direction d w
           | None \<Rightarrow> Above))"

definition crossed :: "param_info \<Rightarrow> real \<Rightarrow> real option \<Rightarrow> bool" where
  "crossed d v threshold =
     (case threshold of
        None \<Rightarrow> False
      | Some t \<Rightarrow> (case direction_of d of Above \<Rightarrow> t \<le> v | Below \<Rightarrow> v \<le> t))"

definition in_normal_range :: "param_info \<Rightarrow> real \<Rightarrow> bool" where
  "in_normal_range d v =
     ((case min_normal d of None \<Rightarrow> True | Some lo \<Rightarrow> lo \<le> v) \<and>
      (case max_normal d of None \<Rightarrow> True | Some hi \<Rightarrow> v \<le> hi))"

definition determine_parameter_status :: "param_info \<Rightarrow> real option \<Rightarrow> status" where
  "determine_parameter_status d reading =
     (case reading of
        None \<Rightarrow> Unknown
      | Some v \<Rightarrow>
          if crossed d v (critical_threshold d) then Critical
          else if crossed d v (warning_threshold d) then Warning
          else if in_normal_range d v then Normal
          else Warning)"

subsection \<open>The monitoring document and the monitor object\<close>

record sample =
  sample_reading :: "real option"
  sample_timestamp :: real

record alert =
  alert_parameter :: string
  alert_status :: status
  alert_reading :: "real option"
  alert_timestamp :: real
  acknowledged :: bool

record session_parameter =
  sp_name :: string
  sp_unit :: string
  sp_samples :: "sample list"
  sp_status :: status

record session =
  start_time :: "real option"
  duration :: real
  parameters :: "string \<rightharpoonup> session_parameter"
  session_alerts :: "alert list"
  dtcs :: "string list"

record vehicle_info =
  vin :: string
  vehicle_make :: string
  vehicle_model :: string
  vehicle_year :: string
  vehicle_engine :: string

record metadata =
  md_vehicle_info :: vehicle_info
  monitoring_start_time :: "real option"
  md_active_profile :: string
  total_alerts :: int
  total_dtcs :: int

record document =
  metadata :: metadata
  current_session :: session
  historical_sessions :: "session list"

record current_value =
  cv_reading :: "real option"
  cv_unit :: string
  cv_timestamp :: "real option"
  cv_status :: status

text \<open>
  The attributes of \<^verbatim>\<open>VehicleMonitor\<close> that the monitoring methods use. Two fields
  make effects on the outside visible: \<open>saved\<close> lists the documents handed to
  \<^verbatim>\<open>save_monitoring_data\<close>, oldest first, and \<open>source_reads\<close> lists the parameter
  paths for which a value was requested from the value source, oldest first.
\<close>

record monitor =
  active_profile :: string
  monitoring_active :: bool
  current_values :: "string \<rightharpoonup> current_value"
  historical_data :: "string \<rightharpoonup> sample list"
  alerts :: "alert list"
  last_poll_time :: "string \<rightharpoonup> real"
  monitoring_data :: document
  saved :: "document list"
  source_reads :: "string list"

text \<open>
  Modelled from the spec: \<^verbatim>\<open>save_monitoring_data\<close> is called by every method below,
  but its body is not part of the sources. By section 4.6 of the specification a save
  hands the document to the persistence gateway; the model records the document handed
  over, and leaves the rest of the object alone.
\<close>

definition save_monitoring_data :: "monitor \<Rightarrow> monitor" where
  "save_monitoring_data s = s\<lparr>saved := saved s @ [monitoring_data s]\<rparr>"

definition empty_session :: session where
  "empty_session =
     \<lparr>start_time = None, duration = 0, parameters = Map.empty,
      session_alerts = [], dtcs = []\<rparr>"

definition initial_document :: "string \<Rightarrow> document" where
  "initial_document prof =
     \<lparr>metadata =
        \<lparr>md_vehicle_info = \<lparr>vin = [], vehicle_make = [], vehicle_model = [], vehicle_year = [],
             vehicle_engine = []\<rparr>,
         monitoring_start_time = None,
         md_active_profile = prof,
         total_alerts = 0,
         total_dtcs = 0\<rparr>,
      current_session = empty_session,
      historical_sessions = []\<rparr>"

definition initialize_monitoring_data :: "monitor \<Rightarrow> monitor" where
  "initialize_monitoring_data s =
     save_monitoring_data (s\<lparr>monitoring_data := initial_document (active_profile s)\<rparr>)"

text \<open>\<^verbatim>\<open>VehicleMonitor.__init__\<close>, on a store that holds no saved document yet.\<close>

definition new_monitor :: "string \<Rightarrow> monitor" where
  "new_monitor prof =
     initialize_monitoring_data
       \<lparr>active_profile = prof, monitoring_active = False,
        current_values = Map.empty, historical_data = Map.empty, alerts = [],
        last_poll_time = Map.empty,
        monitoring_data = initial_document prof,
        saved = [], source_reads = []\<rparr>"

subsection \<open>Session manager\<close>

definition set_vehicle_info ::
  "string \<Rightarrow> string \<Rightarrow> string \<Rightarrow> string \<Rightarrow> string \<Rightarrow> monitor \<Rightarrow> monitor" where
  "set_vehicle_info v mk mdl yr eng s =
     save_monitoring_data
       (s\<lparr>monitoring_data := (monitoring_data s)
            \<lparr>metadata := (metadata (monitoring_data s))
               \<lparr>md_vehicle_info :=
                  \<lparr>vin = v, vehicle_make = mk, vehicle_model = mdl,
                   vehicle_year = yr, vehicle_engine = eng\<rparr>\<rparr>\<rparr>\<rparr>)"

text \<open>
  The loop of \<^verbatim>\<open>start_monitoring\<close> over the profile's parameter paths. A path that
  does not resolve raises; the entries made for the paths before it stay.
\<close>

fun init_parameters :: "config \<Rightarrow> string list \<Rightarrow> monitor \<Rightarrow> exn option \<times> monitor" where
  "init_parameters cfg [] s = (None, s)"
| "init_parameters cfg (param_path # rest) s =
     (case lookup_param cfg param_path of
        Inl e \<Rightarrow> (Some e, s)
      | Inr param_info \<Rightarrow>
          init_parameters cfg rest
            (s\<lparr>current_values := (current_values s)(param_path \<mapsto>
                   \<lparr>cv_reading = None, cv_unit = param_unit param_info,
                    cv_timestamp = None, cv_status = Unknown\<rparr>),
               historical_data := (historical_data s)(param_path \<mapsto> []),
               last_poll_time := (last_poll_time s)(param_path \<mapsto> 0),
               monitoring_data := (monitoring_data s)
                 \<lparr>current_session := (current_session (monitoring_data s))
                    \<lparr>parameters := (parameters (current_session (monitoring_data s)))
                       (param_path \<mapsto>
                          \<lparr>sp_name = param_name param_info,
                           sp_unit = param_unit param_info,
                           sp_samples = [], sp_status = Unknown\<rparr>)\<rparr>\<rparr>\<rparr>))"

text \<open>
  The state that \<^verbatim>\<open>start_monitoring\<close> has written when it looks the profile up:
  the flag, the profile name, the metadata, a fresh session and empty working dicts.
  \<open>t_meta\<close> and \<open>t_session\<close> are the two readings of \<^verbatim>\<open>datetime.now()\<close>.
\<close>

definition begin_session :: "string \<Rightarrow> real \<Rightarrow> real \<Rightarrow> monitor \<Rightarrow> monitor" where
  "begin_session prof t_meta t_session s =
     s\<lparr>active_profile := prof,
       monitoring_active := True,
       monitoring_data := (monitoring_data s)
         \<lparr>metadata := (metadata (monitoring_data s))
            \<lparr>md_active_profile := prof, monitoring_start_time := Some t_meta\<rparr>,
          current_session :=
            \<lparr>start_time = Some t_session, duration = 0, parameters = Map.empty,
             session_alerts = [], dtcs = []\<rparr>\<rparr>,
       current_values := Map.empty,
       historical_data := Map.empty,
       alerts := [],
       last_poll_time := Map.empty\<rparr>"

definition start_monitoring ::
  "config \<Rightarrow> string \<Rightarrow> real \<Rightarrow> real \<Rightarrow> monitor \<Rightarrow> outcome \<times> monitor" where
  "start_monitoring cfg prof t_meta t_session s =
     (if monitoring_active s then (Returned False, s)
      else
        let s1 = begin_session prof t_meta t_session s in
        (case map_of (profiles_table cfg) prof of
           None \<Rightarrow> (Raised (KeyError prof), s1)
         | Some pr \<Rightarrow>
             (case init_parameters cfg (profile_parameters pr) s1 of
                (Some e, s2) \<Rightarrow> (Raised e, s2)
              | (None, s2) \<Rightarrow> (Returned True, save_monitoring_data s2))))"

text \<open>
  \<^verbatim>\<open>stop_monitoring\<close>; \<open>t_end\<close> is its reading of \<^verbatim>\<open>datetime.now()\<close>.
  \<^verbatim>\<open>datetime.fromisoformat('')\<close> raises ValueError.
\<close>

definition stop_monitoring :: "real \<Rightarrow> monitor \<Rightarrow> outcome \<times> monitor" where
  "stop_monitoring t_end s =
     (if \<not> monitoring_active s then (Returned False, s)
      else
        (case start_time (current_session (monitoring_data s)) of
           None \<Rightarrow> (Raised ValueError, s)
         | Some t_start \<Rightarrow>
             let closed = (current_session (monitoring_data s))\<lparr>duration := t_end - t_start\<rparr>
             in (Returned True,
                 save_monitoring_data
                   (s\<lparr>monitoring_data := (monitoring_data s)
                        \<lparr>current_session := empty_session,
                         historical_sessions :=
                           historical_sessions (monitoring_data s) @ [closed]\<rparr>,
                      monitoring_active := False\<rparr>))))"

subsection \<open>Polling scheduler\<close>

text \<open>
  What \<^verbatim>\<open>update_parameters\<close> reads from outside the object. The two acquisition
  methods (\<^verbatim>\<open>get_parameter_from_obd\<close>, keyed by PID, and the simulator
  \<^verbatim>\<open>simulate_parameter_value\<close>, keyed by parameter path) are not part of the sources
  and are taken as they come; an absent reading is \<^verbatim>\<open>None\<close>. \<open>datetime_now\<close> is the
  wall-clock reading taken while a parameter is handled.
\<close>

record value_source =
  obd_interface :: bool
  get_parameter_from_obd :: "string \<Rightarrow> real option"
  simulate_parameter_value :: "string \<Rightarrow> real option"
  datetime_now :: "string \<Rightarrow> real"

text \<open>
  The test of \<^verbatim>\<open>update_parameters\<close>:
  \<^verbatim>\<open>current_time - self.last_poll_time.get(param_path, 0) >= param_info['polling_rate']\<close>.
\<close>

definition is_due :: "real \<Rightarrow> monitor \<Rightarrow> string \<Rightarrow> param_info \<Rightarrow> bool" where
  "is_due current_time s param_path param_info =
     (polling_rate param_info \<le>
        current_time - (case last_poll_time s param_path of None \<Rightarrow> 0 | Some t \<Rightarrow> t))"

text \<open>
  Modelled from the spec: the part of the loop body of \<^verbatim>\<open>update_parameters\<close> after
  the history append is not part of the sources (the file ends inside that statement).
  Sections 2 and 4.4 of the specification give it: the session manager appends the
  sample to the current session, and the alert manager raises a new alert if and only
  if the status is at least as severe as the profile's alert threshold (normal, then
  warning, then critical; unknown never raises), counts it in the total-alert counter
  and saves the document.
\<close>

fun severity :: "status \<Rightarrow> nat" where
  "severity Unknown = 0"
| "severity Normal = 0"
| "severity Warning = 1"
| "severity Critical = 2"

definition raises_alert :: "status \<Rightarrow> status \<Rightarrow> bool" where
  "raises_alert threshold st = (st \<noteq> Unknown \<and> severity threshold \<le> severity st)"

definition append_to_session :: "string \<Rightarrow> sample \<Rightarrow> status \<Rightarrow> monitor \<Rightarrow> monitor" where
  "append_to_session param_path smp st s =
     (case parameters (current_session (monitoring_data s)) param_path of
        None \<Rightarrow> s
      | Some sp \<Rightarrow>
          s\<lparr>monitoring_data := (monitoring_data s)
               \<lparr>current_session := (current_session (monitoring_data s))
                  \<lparr>parameters := (parameters (current_session (monitoring_data s)))
                     (param_path \<mapsto>
                        sp\<lparr>sp_samples := sp_samples sp @ [smp], sp_status := st\<rparr>)\<rparr>\<rparr>\<rparr>)"

definition raise_alert :: "alert \<Rightarrow> monitor \<Rightarrow> monitor" where
  "raise_alert a s =
     save_monitoring_data
       (s\<lparr>alerts := alerts s @ [a],
          monitoring_data := (monitoring_data s)
            \<lparr>metadata := (metadata (monitoring_data s))
               \<lparr>total_alerts := total_alerts (metadata (monitoring_data s)) + 1\<rparr>,
             current_session := (current_session (monitoring_data s))
               \<lparr>session_alerts :=
                  session_alerts (current_session (monitoring_data s)) @ [a]\<rparr>\<rparr>\<rparr>)"

definition alert_manager ::
  "profile \<Rightarrow> string \<Rightarrow> real option \<Rightarrow> status \<Rightarrow> real \<Rightarrow> monitor \<Rightarrow> monitor" where
  "alert_manager pr param_path reading st stamp s =
     (if raises_alert (alert_threshold pr) st
      then raise_alert
             \<lparr>alert_parameter = param_path, alert_status = st, alert_reading = reading,
              alert_timestamp = stamp, acknowledged = False\<rparr> s
      else s)"

text \<open>
  The acquisition: the OBD interface when the object has one, the simulator otherwise.
\<close>

definition acquire :: "value_source \<Rightarrow> string \<Rightarrow> param_info \<Rightarrow> real option" where
  "acquire env param_path param_info =
     (if obd_interface env
      then get_parameter_from_obd env (pid param_info)
      else simulate_parameter_value env param_path)"

text \<open>
  The body of the loop for a parameter that is due, in the order of the source: the last
  poll time, the acquisition, the current value, the history append (KeyError when the
  path has no history list), then the part described above. The argument of the append
  is cut off in the sources; the sample appended is the historical sample of section 3
  of the specification, the value with its timestamp.
\<close>

definition poll_parameter ::
  "value_source \<Rightarrow> real \<Rightarrow> profile \<Rightarrow> string \<Rightarrow> param_info \<Rightarrow> monitor \<Rightarrow>
     exn option \<times> monitor" where
  "poll_parameter env current_time pr param_path param_info s =
     (let s1 = s\<lparr>last_poll_time := (last_poll_time s)(param_path \<mapsto> current_time)\<rparr>;
          reading = acquire env param_path param_info;
          s2 = s1\<lparr>source_reads := source_reads s1 @ [param_path]\<rparr>;
          stamp = datetime_now env param_path;
          st = determine_parameter_status param_info reading;
          s3 = s2\<lparr>current_values := (current_values s2)(param_path \<mapsto>
                     \<lparr>cv_reading = reading, cv_unit = param_unit param_info,
                      cv_timestamp = Some stamp, cv_status = st\<rparr>)\<rparr>;
          smp = \<lparr>sample_reading = reading, sample_timestamp = stamp\<rparr>
      in (case historical_data s3 param_path of
            None \<Rightarrow> (Some (KeyError param_path), s3)
          | Some h \<Rightarrow>
              (None,
               alert_manager pr param_path reading st stamp
                 (append_to_session param_path smp st
                    (s3\<lparr>historical_data := (historical_data s3)(param_path \<mapsto> h @ [smp])\<rparr>)))))"

fun update_loop ::
  "config \<Rightarrow> value_source \<Rightarrow> real \<Rightarrow> profile \<Rightarrow> string list \<Rightarrow> monitor \<Rightarrow>
     exn option \<times> monitor" where
  "update_loop cfg env current_time pr [] s = (None, s)"
| "update_loop cfg env current_time pr (param_path # rest) s =
     (case lookup_param cfg param_path of
        Inl e \<Rightarrow> (Some e, s)
      | Inr param_info \<Rightarrow>
          if is_due current_time s param_path param_info
          then (case poll_parameter env current_time pr param_path param_info s of
                  (Some e, s') \<Rightarrow> (Some e, s')
                | (None, s') \<Rightarrow> update_loop cfg env current_time pr rest s')
          else update_loop cfg env current_time pr rest s)"

text \<open>
  \<^verbatim>\<open>update_parameters\<close>; \<open>current_time\<close> is its reading of \<^verbatim>\<open>time.time()\<close>. The
  end of the method is not part of the sources: after the loop the model returns True,
  as the sibling methods do when they succeed.
\<close>

definition update_parameters ::
  "config \<Rightarrow> value_source \<Rightarrow> real \<Rightarrow> monitor \<Rightarrow> outcome \<times> monitor" where
  "update_parameters cfg env current_time s =
     (if \<not> monitoring_active s then (Returned False, s)
      else
        (case map_of (profiles_table cfg) (active_profile s) of
           None \<Rightarrow> (Raised (KeyError (active_profile s)), s)
         | Some pr \<Rightarrow>
             (case update_loop cfg env current_time pr (profile_parameters pr) s of
                (Some e, s') \<Rightarrow> (Raised e, s')
              | (None, s') \<Rightarrow> (Returned True, s'))))"


section \<open>Merging the trouble-code databases\<close>

text \<open>
  A record of \<^verbatim>\<open>dtc_parser.py\<close>. A database is a Python dict from code to record: an
  association list in insertion order, where \<open>AList.update\<close> overwrites a key in place
  and appends a new one, as item assignment does. The records of the three inputs are
  distinct objects, as the extractors build them.
\<close>

record dtc =
  dtc_code :: string
  dtc_title :: string
  dtc_description :: string
  possible_causes :: "string list"
  diagnostic_aids :: string
  dtc_source :: string

type_synonym dtc_db = "(string \<times> dtc) list"

definition dict_update :: "dtc_db \<Rightarrow> dtc_db \<Rightarrow> dtc_db" where
  "dict_update m other = fold (\<lambda>(k, v) acc. AList.update k v acc) other m"

definition merge_new_2007 :: "string \<times> dtc \<Rightarrow> dtc_db \<Rightarrow> dtc_db" where
  "merge_new_2007 item merged_dtcs =
     (case item of (c, dtc_info) \<Rightarrow>
        (case map_of merged_dtcs c of
           Some m \<Rightarrow>
             let m1 = (if dtc_description m = [] \<and> dtc_description dtc_info \<noteq> []
                       then m\<lparr>dtc_description := dtc_description dtc_info\<rparr> else m)
             in AList.update c (m1\<lparr>dtc_source := dtc_source m1 @ '',new_2007''\<rparr>) merged_dtcs
         | None \<Rightarrow> AList.update c dtc_info merged_dtcs))"

definition merge_rac :: "string \<times> dtc \<Rightarrow> dtc_db \<Rightarrow> dtc_db" where
  "merge_rac item merged_dtcs =
     (case item of (c, dtc_info) \<Rightarrow>
        (case map_of merged_dtcs c of
           Some m \<Rightarrow> AList.update c (m\<lparr>dtc_source := dtc_source m @ '',rac''\<rparr>) merged_dtcs
         | None \<Rightarrow> AList.update c dtc_info merged_dtcs))"

definition merge_dtc_databases :: "dtc_db \<Rightarrow> dtc_db \<Rightarrow> dtc_db \<Rightarrow> dtc_db" where
  "merge_dtc_databases primary_dtcs new_2007_dtcs rac_dtcs =
     fold merge_rac rac_dtcs
       (fold merge_new_2007 new_2007_dtcs (dict_update [] primary_dtcs))"

text \<open>The sources named by a provenance string, which joins them with commas.\<close>

definition provenance :: "dtc \<Rightarrow> string set" where
  "provenance d = set (split_on CHR '','' (dtc_source d))"

section \<open>Predicates and scenarios used in the statements\<close>

text \<open>A parameter path resolves when the registry lookup of the source succeeds.\<close>

definition resolves :: "config \<Rightarrow> string \<Rightarrow> bool" where
  "resolves cfg param_path = (case lookup_param cfg param_path of Inl e \<Rightarrow> False | Inr d \<Rightarrow> True)"

text \<open>
  A profile name is valid when the catalog has it and each of its parameter paths
  resolves.
\<close>

definition valid_profile :: "config \<Rightarrow> string \<Rightarrow> bool" where
  "valid_profile cfg prof =
     (case map_of (profiles_table cfg) prof of
        None \<Rightarrow> False
      | Some pr \<Rightarrow> list_all (resolves cfg) (profile_parameters pr))"



text \<open>A monitor created with the default profile and started on it.\<close>

definition standard_run :: monitor where
  "standard_run =
     snd (start_monitoring source_tables ''STANDARD'' 1000 1000 (new_monitor ''STANDARD''))"

text \<open>A monitor created with the default profile and started on a name the catalog lacks.\<close>

definition bogus_run :: monitor where
  "bogus_run = snd (start_monitoring source_tables ''BOGUS'' 1000 1000 (new_monitor ''STANDARD''))"

text \<open>The RPM entry of the registry.\<close>

definition rpm_info :: param_info where
  "rpm_info =
     \<lparr>pid = ''010C'', param_name = ''Engine RPM'', param_unit = ''rpm'',
      min_normal = Some 600, max_normal = Some 6500,
      warning_threshold = Some 6000, critical_threshold = Some 6500,
      priority = ''high'', polling_rate = 1,
      description = ''Engine revolutions per minute''\<rparr>"





text \<open>The operations of the engine, and a run of them from a state.\<close>

datatype operation =
    SetVehicleInfo string string string string string
  | StartMonitoring string real real
  | StopMonitoring real
  | UpdateParameters value_source real

fun apply_operation :: "config \<Rightarrow> operation \<Rightarrow> monitor \<Rightarrow> monitor" where
  "apply_operation cfg (SetVehicleInfo v mk mdl yr eng) s = set_vehicle_info v mk mdl yr eng s"
| "apply_operation cfg (StartMonitoring prof t_meta t_session) s =
     snd (start_monitoring cfg prof t_meta t_session s)"
| "apply_operation cfg (StopMonitoring t_end) s = snd (stop_monitoring t_end s)"
| "apply_operation cfg (UpdateParameters env current_time) s =
     snd (update_parameters cfg env current_time s)"

definition alert_count :: "monitor \<Rightarrow> int" where
  "alert_count s = total_alerts (metadata (monitoring_data s))"

text \<open>A value source whose simulator always reads 7000, out of every normal range.\<close>

definition hot_source :: value_source where
  "hot_source =
     \<lparr>obd_interface = False,
      get_parameter_from_obd = (\<lambda>p. None),
      simulate_parameter_value = (\<lambda>p. Some 7000),
      datetime_now = (\<lambda>p. 1000)\<rparr>"


text \<open>
  A primary record without description, and a record of the third source for the same
  code that has one.
\<close>

definition primary_gap :: dtc_db where
  "primary_gap =
     [(''P0001'',
       \<lparr>dtc_code = ''P0001'', dtc_title = ''Fuel Volume Regulator Control Circuit'',
        dtc_description = [], possible_causes = [[]], diagnostic_aids = [],
        dtc_source = ''primary''\<rparr>)]"

definition rac_entry :: dtc_db where
  "rac_entry =
     [(''P0001'',
       \<lparr>dtc_code = ''P0001'', dtc_title = ''Fuel regulator'',
        dtc_description = ''Regulator circuit open'', possible_causes = [],
        diagnostic_aids = [], dtc_source = ''rac''\<rparr>)]"

definition new_2007_entry :: dtc_db where
  "new_2007_entry =
     [(''P0001'',
       \<lparr>dtc_code = ''P0001'', dtc_title = ''Fuel Volume Regulator Control Circuit/Open'',
        dtc_description = ''Fuel Volume Regulator Control Circuit/Open'',
        possible_causes = [], diagnostic_aids = [], dtc_source = ''new_2007''\<rparr>),
      (''P0002'',
       \<lparr>dtc_code = ''P0002'', dtc_title = ''Fuel Volume Regulator Range'',
        dtc_description = ''Fuel Volume Regulator Range'',
        possible_causes = [], diagnostic_aids = [], dtc_source = ''new_2007''\<rparr>)]"


text \<open>
  The lookup error of the first parameter path, in list order, that does not resolve.
\<close>

fun first_error :: "config \<Rightarrow> string list \<Rightarrow> exn option" where
  "first_error cfg [] = None"
| "first_error cfg (param_path # rest) =
     (case lookup_param cfg param_path of
        Inl e \<Rightarrow> Some e
      | Inr param_info \<Rightarrow> first_error cfg rest)"

text \<open>
  The configuration error of a profile name: the KeyError on the name when the catalog
  lacks it, else the first lookup error among its parameter paths.
\<close>

definition start_error :: "config \<Rightarrow> string \<Rightarrow> exn option" where
  "start_error cfg prof =
     (case map_of (profiles_table cfg) prof of
        None \<Rightarrow> Some (KeyError prof)
      | Some pr \<Rightarrow> first_error cfg (profile_parameters pr))"


section \<open>Session manager: auxiliary facts\<close>

lemma init_parameters_frame:
  "init_parameters cfg ps s = (r, s') \<Longrightarrow>
     saved s' = saved s \<and> monitoring_active s' = monitoring_active s \<and>
     active_profile s' = active_profile s \<and> alerts s' = alerts s \<and>
     source_reads s' = source_reads s \<and>
     metadata (monitoring_data s') = metadata (monitoring_data s) \<and>
     historical_sessions (monitoring_data s') = historical_sessions (monitoring_data s) \<and>
     start_time (current_session (monitoring_data s')) = start_time (current_session (monitoring_data s)) \<and>
     duration (current_session (monitoring_data s')) = duration (current_session (monitoring_data s)) \<and>
     session_alerts (current_session (monitoring_data s')) = session_alerts (current_session (monitoring_data s)) \<and>
     dtcs (current_session (monitoring_data s')) = dtcs (current_session (monitoring_data s))"
proof (induction ps arbitrary: s)
  case Nil
  then show ?case by simp
next
  case (Cons p ps)
  show ?case
  proof (cases "lookup_param cfg p")
    case (Inl e)
    with Cons.prems show ?thesis by simp
  next
    case (Inr d)
    with Cons.prems Cons.IH show ?thesis by fastforce
  qed
qed

lemma init_parameters_ok:
  "list_all (resolves cfg) ps \<Longrightarrow> fst (init_parameters cfg ps s) = None"
  by (induction ps arbitrary: s) (auto simp: resolves_def split: sum.splits)

lemma init_parameters_fail:
  "\<not> list_all (resolves cfg) ps \<Longrightarrow> \<exists>e. fst (init_parameters cfg ps s) = Some e"
  by (induction ps arbitrary: s) (auto simp: resolves_def split: sum.splits)


lemma init_parameters_history:
  "list_all (resolves cfg) ps \<Longrightarrow>
   historical_data (snd (init_parameters cfg ps s)) k =
     (if k \<in> set ps then Some [] else historical_data s k)"
  by (induction ps arbitrary: s) (auto simp: resolves_def split: sum.splits)

lemma source_profiles_valid:
  "valid_profile source_tables ''STANDARD''"
  "valid_profile source_tables ''PERFORMANCE''"
  "valid_profile source_tables ''ECONOMY''"
  "valid_profile source_tables ''DIAGNOSTIC''"
  by (simp_all add: valid_profile_def source_tables_def MONITORING_PROFILES_def
      MONITORING_PARAMETERS_def resolves_def lookup_param_def)

lemma begin_session_fields:
  "monitoring_active (begin_session prof tm ts s)"
  "active_profile (begin_session prof tm ts s) = prof"
  "saved (begin_session prof tm ts s) = saved s"
  "source_reads (begin_session prof tm ts s) = source_reads s"
  "historical_sessions (monitoring_data (begin_session prof tm ts s)) =
     historical_sessions (monitoring_data s)"
  "current_session (monitoring_data (begin_session prof tm ts s)) =
     empty_session\<lparr>start_time := Some ts\<rparr>"
  "last_poll_time (begin_session prof tm ts s) = Map.empty"
  "current_values (begin_session prof tm ts s) = Map.empty"
  "historical_data (begin_session prof tm ts s) = Map.empty"
  "alerts (begin_session prof tm ts s) = []"
  "md_active_profile (metadata (monitoring_data (begin_session prof tm ts s))) = prof"
  "monitoring_start_time (metadata (monitoring_data (begin_session prof tm ts s))) = Some tm"
  "total_alerts (metadata (monitoring_data (begin_session prof tm ts s))) =
     total_alerts (metadata (monitoring_data s))"
  "md_vehicle_info (metadata (monitoring_data (begin_session prof tm ts s))) =
     md_vehicle_info (metadata (monitoring_data s))"
  by (simp_all add: begin_session_def empty_session_def)

lemma save_fields:
  "monitoring_data (save_monitoring_data s) = monitoring_data s"
  "saved (save_monitoring_data s) = saved s @ [monitoring_data s]"
  "monitoring_active (save_monitoring_data s) = monitoring_active s"
  "active_profile (save_monitoring_data s) = active_profile s"
  "last_poll_time (save_monitoring_data s) = last_poll_time s"
  "current_values (save_monitoring_data s) = current_values s"
  "historical_data (save_monitoring_data s) = historical_data s"
  "alerts (save_monitoring_data s) = alerts s"
  "source_reads (save_monitoring_data s) = source_reads s"
  by (simp_all add: save_monitoring_data_def)

lemma start_monitoring_valid:
  assumes "\<not> monitoring_active s"
    and "map_of (profiles_table cfg) prof = Some pr"
    and "list_all (resolves cfg) (profile_parameters pr)"
  shows "start_monitoring cfg prof tm ts s =
    (Returned True,
     save_monitoring_data
       (snd (init_parameters cfg (profile_parameters pr) (begin_session prof tm ts s))))"
proof (cases "init_parameters cfg (profile_parameters pr) (begin_session prof tm ts s)")
  case (Pair r s2)
  with init_parameters_ok [OF assms(3), of "begin_session prof tm ts s"]
  have "r = None" by simp
  with Pair assms show ?thesis by (simp add: start_monitoring_def)
qed

lemma start_monitoring_unknown_profile:
  assumes "\<not> monitoring_active s" and "map_of (profiles_table cfg) prof = None"
  shows "start_monitoring cfg prof tm ts s =
    (Raised (KeyError prof), begin_session prof tm ts s)"
  using assms by (simp add: start_monitoring_def)

lemma start_monitoring_active:
  "monitoring_active s \<Longrightarrow> start_monitoring cfg prof tm ts s = (Returned False, s)"
  by (simp add: start_monitoring_def)

lemma new_monitor_idle: "\<not> monitoring_active (new_monitor prof)"
  by (simp add: new_monitor_def initialize_monitoring_data_def save_monitoring_data_def)

lemma init_frame_snd:
  "monitoring_active (snd (init_parameters cfg ps s)) = monitoring_active s"
  "active_profile (snd (init_parameters cfg ps s)) = active_profile s"
  "saved (snd (init_parameters cfg ps s)) = saved s"
  "alerts (snd (init_parameters cfg ps s)) = alerts s"
  "source_reads (snd (init_parameters cfg ps s)) = source_reads s"
  "start_time (current_session (monitoring_data (snd (init_parameters cfg ps s)))) =
     start_time (current_session (monitoring_data s))"
  "duration (current_session (monitoring_data (snd (init_parameters cfg ps s)))) =
     duration (current_session (monitoring_data s))"
  "session_alerts (current_session (monitoring_data (snd (init_parameters cfg ps s)))) =
     session_alerts (current_session (monitoring_data s))"
  "dtcs (current_session (monitoring_data (snd (init_parameters cfg ps s)))) =
     dtcs (current_session (monitoring_data s))"
  "historical_sessions (monitoring_data (snd (init_parameters cfg ps s))) =
     historical_sessions (monitoring_data s)"
  "metadata (monitoring_data (snd (init_parameters cfg ps s))) = metadata (monitoring_data s)"
  using init_parameters_frame [OF surjective_pairing, of cfg ps s] by simp_all

lemma valid_profileE:
  assumes "valid_profile cfg prof"
  obtains pr where "map_of (profiles_table cfg) prof = Some pr"
    and "list_all (resolves cfg) (profile_parameters pr)"
  using assms by (auto simp: valid_profile_def split: option.splits)

lemma start_monitoring_valid_active:
  assumes "\<not> monitoring_active s" and "valid_profile cfg prof"
  shows "fst (start_monitoring cfg prof tm ts s) = Returned True"
    and "monitoring_active (snd (start_monitoring cfg prof tm ts s))"
    and "active_profile (snd (start_monitoring cfg prof tm ts s)) = prof"
proof -
  from assms(2) obtain pr where pr: "map_of (profiles_table cfg) prof = Some pr"
    "list_all (resolves cfg) (profile_parameters pr)" by (rule valid_profileE)
  note st = start_monitoring_valid [OF assms(1) pr, of tm ts]
  show "fst (start_monitoring cfg prof tm ts s) = Returned True" by (simp add: st)
  show "monitoring_active (snd (start_monitoring cfg prof tm ts s))"
    by (simp add: st save_fields init_frame_snd begin_session_fields)
  show "active_profile (snd (start_monitoring cfg prof tm ts s)) = prof"
    by (simp add: st save_fields init_frame_snd begin_session_fields)
qed

lemma standard_run_active: "monitoring_active standard_run"
  unfolding standard_run_def
  by (rule start_monitoring_valid_active(2) [OF new_monitor_idle source_profiles_valid(1)])

subsection \<open>Start while monitoring\<close>

text \<open>
  C3. In the Monitoring state a call of start fails (the method prints that monitoring
  is already active and returns False, the AlreadyMonitoring of the specification) and
  changes nothing: the object, with the session's start time, the active profile, the
  last poll times, the monitoring flag and the list of saved documents, is returned as
  it was.
\<close>

theorem start_twice_already_monitoring:
  "monitoring_active s \<Longrightarrow> start_monitoring cfg prof t_meta t_session s = (Returned False, s)"
  by (simp add: start_monitoring_def)

theorem start_twice_already_monitoring_witness:
  "monitoring_active standard_run \<and>
   start_monitoring source_tables ''ECONOMY'' 2000 2000 standard_run = (Returned False, standard_run)"
  using start_twice_already_monitoring [of standard_run source_tables "''ECONOMY''" 2000 2000]
    standard_run_active by simp

lemma stop_monitoring_idle:
  "\<not> monitoring_active s \<Longrightarrow> stop_monitoring t_end s = (Returned False, s)"
  by (simp add: stop_monitoring_def)

lemma stop_monitoring_running:
  assumes "monitoring_active s"
    and "start_time (current_session (monitoring_data s)) = Some t_start"
  shows "stop_monitoring t_end s =
    (Returned True,
     save_monitoring_data
       (s\<lparr>monitoring_data := (monitoring_data s)
            \<lparr>current_session := empty_session,
             historical_sessions := historical_sessions (monitoring_data s) @
               [(current_session (monitoring_data s))\<lparr>duration := t_end - t_start\<rparr>]\<rparr>,
          monitoring_active := False\<rparr>))"
  using assms by (simp add: stop_monitoring_def)

lemma start_monitoring_valid_session:
  assumes "\<not> monitoring_active s" and "valid_profile cfg prof"
  shows "start_time (current_session (monitoring_data (snd (start_monitoring cfg prof tm ts s)))) = Some ts"
    and "historical_sessions (monitoring_data (snd (start_monitoring cfg prof tm ts s))) =
           historical_sessions (monitoring_data s)"
    and "saved (snd (start_monitoring cfg prof tm ts s)) =
           saved s @ [monitoring_data (snd (start_monitoring cfg prof tm ts s))]"
    and "total_alerts (metadata (monitoring_data (snd (start_monitoring cfg prof tm ts s)))) =
           total_alerts (metadata (monitoring_data s))"
proof -
  from assms(2) obtain pr where pr: "map_of (profiles_table cfg) prof = Some pr"
    "list_all (resolves cfg) (profile_parameters pr)" by (rule valid_profileE)
  note st = start_monitoring_valid [OF assms(1) pr, of tm ts]
  show "start_time (current_session (monitoring_data (snd (start_monitoring cfg prof tm ts s)))) = Some ts"
    by (simp add: st save_fields init_frame_snd begin_session_fields empty_session_def)
  show "historical_sessions (monitoring_data (snd (start_monitoring cfg prof tm ts s))) =
           historical_sessions (monitoring_data s)"
    by (simp add: st save_fields init_frame_snd begin_session_fields)
  show "saved (snd (start_monitoring cfg prof tm ts s)) =
           saved s @ [monitoring_data (snd (start_monitoring cfg prof tm ts s))]"
    by (simp add: st save_fields init_frame_snd begin_session_fields)
  show "total_alerts (metadata (monitoring_data (snd (start_monitoring cfg prof tm ts s)))) =
           total_alerts (metadata (monitoring_data s))"
    by (simp add: st save_fields init_frame_snd begin_session_fields)
qed

lemma new_monitor_fields:
  "historical_sessions (monitoring_data (new_monitor prof)) = []"
  "saved (new_monitor prof) = [initial_document prof]"
  "monitoring_data (new_monitor prof) = initial_document prof"
  "active_profile (new_monitor prof) = prof"
  by (simp_all add: new_monitor_def initialize_monitoring_data_def save_monitoring_data_def
      initial_document_def)

subsection \<open>Stop while idle\<close>

text \<open>
  C4. In the Idle state a call of stop fails (the method prints that monitoring is not
  active and returns False, the NotMonitoring of the specification); the object is
  returned as it was, so nothing is appended to the historical sessions and the whole
  monitoring document is unchanged.
\<close>

theorem stop_while_idle_rejected:
  "\<not> monitoring_active s \<Longrightarrow> stop_monitoring t_end s = (Returned False, s)"
  by (simp add: stop_monitoring_def)

theorem stop_while_idle_rejected_witness:
  "\<not> monitoring_active (new_monitor ''STANDARD'') \<and>
   stop_monitoring 1000 (new_monitor ''STANDARD'') = (Returned False, new_monitor ''STANDARD'')"
  using stop_while_idle_rejected [of "new_monitor ''STANDARD''" 1000] new_monitor_idle
  by simp

subsection \<open>Start with an unknown profile\<close>

text \<open>
  C10. From the Idle state, a start with a profile name that the catalog lacks raises the
  lookup error (KeyError on the name) only after the object has been changed: the
  monitoring flag is set, the active profile name is overwritten in the object and in the
  document, and the current session is a fresh empty session stamped with the start
  time. Nothing is saved on the way.
\<close>

theorem start_unknown_profile_not_atomic:
  fixes cfg :: config and prof :: string and t_meta t_session :: real and s :: monitor
  defines "s' \<equiv> snd (start_monitoring cfg prof t_meta t_session s)"
  assumes idle: "\<not> monitoring_active s"
    and unknown: "map_of (profiles_table cfg) prof = None"
  shows "fst (start_monitoring cfg prof t_meta t_session s) = Raised (KeyError prof) \<and>
         monitoring_active s' \<and>
         active_profile s' = prof \<and>
         md_active_profile (metadata (monitoring_data s')) = prof \<and>
         current_session (monitoring_data s') =
           \<lparr>start_time = Some t_session, duration = 0, parameters = Map.empty,
            session_alerts = [], dtcs = []\<rparr> \<and>
         saved s' = saved s"
  using idle unknown
  by (simp add: s'_def start_monitoring_def begin_session_def)

lemma bogus_unknown: "map_of (profiles_table source_tables) ''BOGUS'' = None"
  by (simp add: source_tables_def MONITORING_PROFILES_def)

theorem start_unknown_profile_not_atomic_witness:
  "\<not> monitoring_active (new_monitor ''STANDARD'') \<and>
   map_of (profiles_table source_tables) ''BOGUS'' = None \<and>
   fst (start_monitoring source_tables ''BOGUS'' 1000 1000 (new_monitor ''STANDARD'')) =
     Raised (KeyError ''BOGUS'') \<and>
   monitoring_active bogus_run \<and> active_profile bogus_run = ''BOGUS'' \<and>
   md_active_profile (metadata (monitoring_data bogus_run)) = ''BOGUS'' \<and>
   current_session (monitoring_data bogus_run) =
     \<lparr>start_time = Some 1000, duration = 0, parameters = Map.empty,
      session_alerts = [], dtcs = []\<rparr> \<and>
   saved bogus_run = [initial_document ''STANDARD'']"
  using start_unknown_profile_not_atomic [OF new_monitor_idle [of "''STANDARD''"] bogus_unknown,
      where t_meta = 1000 and t_session = 1000]
    new_monitor_idle [of "''STANDARD''"] bogus_unknown
  by (simp add: bogus_run_def new_monitor_fields)

subsection \<open>Outcomes of start and stop\<close>

lemma start_monitoring_outcomes:
  assumes "start_monitoring cfg prof tm ts s = (Returned b, s')"
  shows "(b \<longrightarrow> saved s' = saved s @ [monitoring_data s']) \<and> (\<not> b \<longrightarrow> s' = s)"
proof (cases "monitoring_active s")
  case True
  with assms show ?thesis by (simp add: start_monitoring_def)
next
  case False
  show ?thesis
  proof (cases "map_of (profiles_table cfg) prof")
    case None
    with False assms show ?thesis by (simp add: start_monitoring_def)
  next
    case (Some pr)
    obtain r s2 where init:
      "init_parameters cfg (profile_parameters pr) (begin_session prof tm ts s) = (r, s2)"
      by (cases "init_parameters cfg (profile_parameters pr) (begin_session prof tm ts s)")
    from init_parameters_frame [OF init] have "saved s2 = saved s"
      by (simp add: begin_session_fields)
    with False Some init assms show ?thesis
      by (cases r) (auto simp: start_monitoring_def save_fields)
  qed
qed

lemma stop_monitoring_outcomes:
  "stop_monitoring te s = (Returned b, s') \<Longrightarrow>
     (b \<longrightarrow> saved s' = saved s @ [monitoring_data s']) \<and> (\<not> b \<longrightarrow> s' = s)"
  by (auto simp: stop_monitoring_def Let_def save_monitoring_data_def
      split: if_splits option.splits)

lemma standard_run_start:
  "start_monitoring source_tables ''STANDARD'' 1000 1000 (new_monitor ''STANDARD'') =
     (Returned True, standard_run)"
  using start_monitoring_valid_active(1)
    [OF new_monitor_idle [of "''STANDARD''"] source_profiles_valid(1), of 1000 1000]
  by (simp add: standard_run_def prod_eq_iff)

lemma standard_run_fields:
  "start_time (current_session (monitoring_data standard_run)) = Some 1000"
  "saved standard_run = [initial_document ''STANDARD'', monitoring_data standard_run]"
  "historical_sessions (monitoring_data standard_run) = []"
  "active_profile standard_run = ''STANDARD''"
  using start_monitoring_valid_session
    [OF new_monitor_idle [of "''STANDARD''"] source_profiles_valid(1), of 1000 1000]
    start_monitoring_valid_active(3)
    [OF new_monitor_idle [of "''STANDARD''"] source_profiles_valid(1), of 1000 1000]
  by (simp_all add: standard_run_def new_monitor_fields initial_document_def)

lemma standard_run_stop:
  "stop_monitoring 1060 standard_run = (Returned True, snd (stop_monitoring 1060 standard_run))"
  using stop_monitoring_running [OF standard_run_active standard_run_fields(1), of 1060]
  by simp

section \<open>Status evaluator\<close>

lemma rpm_lookup: "lookup_param source_tables ''ENGINE_PARAMETERS.RPM'' = Inr rpm_info"
  by (simp add: lookup_param_def source_tables_def MONITORING_PARAMETERS_def rpm_info_def)

lemma crossed_at_threshold: "crossed d c (Some c)"
  by (simp add: crossed_def split: direction.splits)

lemma rpm_status:
  "determine_parameter_status rpm_info (Some 300) = Warning"
  "determine_parameter_status rpm_info (Some 6200) = Warning"
  "determine_parameter_status rpm_info (Some 6500) = Critical"
  by (simp_all add: determine_parameter_status_def crossed_def direction_of_def
      threshold_direction_def in_normal_range_def rpm_info_def)

text \<open>
  The severity law of the specification: with both thresholds set and ordered in the
  direction of the deviation, a value strictly between them is a warning.
\<close>

lemma severity_law:
  assumes "warning_threshold d = Some w" and "critical_threshold d = Some c"
    and "(w < v \<and> v < c) \<or> (c < v \<and> v < w)"
    and "direction_of d = Above \<longrightarrow> w \<le> c" and "direction_of d = Below \<longrightarrow> c \<le> w"
  shows "determine_parameter_status d (Some v) = Warning"
  using assms by (auto simp: determine_parameter_status_def crossed_def split: direction.splits)

text \<open>
  C1. The status evaluator returns unknown for an absent value; critical when a critical
  threshold is defined and crossed, in particular for a value exactly at the critical
  threshold; else warning when a warning threshold is defined and crossed; else normal
  when the value lies within the normal range (absent bounds open); else warning. So a
  value outside the normal range is never normal: for the RPM entry of the registry
  (minimum 600) the value 300 is a warning, 6200 is a warning and 6500 is critical.
\<close>

theorem status_evaluator_order:
  "determine_parameter_status d None = Unknown \<and>
   (critical_threshold d = Some c \<longrightarrow> determine_parameter_status d (Some c) = Critical) \<and>
   (crossed d v (critical_threshold d) \<longrightarrow>
      determine_parameter_status d (Some v) = Critical) \<and>
   (\<not> crossed d v (critical_threshold d) \<and> crossed d v (warning_threshold d) \<longrightarrow>
      determine_parameter_status d (Some v) = Warning) \<and>
   (\<not> crossed d v (critical_threshold d) \<and> \<not> crossed d v (warning_threshold d) \<and>
    in_normal_range d v \<longrightarrow>
      determine_parameter_status d (Some v) = Normal) \<and>
   (\<not> crossed d v (critical_threshold d) \<and> \<not> crossed d v (warning_threshold d) \<and>
    \<not> in_normal_range d v \<longrightarrow>
      determine_parameter_status d (Some v) = Warning) \<and>
   (\<not> in_normal_range d v \<longrightarrow>
      determine_parameter_status d (Some v) = Warning \<or>
      determine_parameter_status d (Some v) = Critical) \<and>
   (lookup_param source_tables ''ENGINE_PARAMETERS.RPM'' = Inr d \<longrightarrow>
      min_normal d = Some 600 \<and>
      determine_parameter_status d (Some 300) = Warning \<and>
      determine_parameter_status d (Some 6200) = Warning \<and>
      determine_parameter_status d (Some 6500) = Critical)"
proof -
  have general:
    "determine_parameter_status d None = Unknown"
    "crossed d v (critical_threshold d) \<longrightarrow> determine_parameter_status d (Some v) = Critical"
    "\<not> crossed d v (critical_threshold d) \<and> crossed d v (warning_threshold d) \<longrightarrow>
       determine_parameter_status d (Some v) = Warning"
    "\<not> crossed d v (critical_threshold d) \<and> \<not> crossed d v (warning_threshold d) \<and>
     in_normal_range d v \<longrightarrow> determine_parameter_status d (Some v) = Normal"
    "\<not> crossed d v (critical_threshold d) \<and> \<not> crossed d v (warning_threshold d) \<and>
     \<not> in_normal_range d v \<longrightarrow> determine_parameter_status d (Some v) = Warning"
    "\<not> in_normal_range d v \<longrightarrow>
       determine_parameter_status d (Some v) = Warning \<or>
       determine_parameter_status d (Some v) = Critical"
    by (simp_all add: determine_parameter_status_def)
  have at_critical:
    "critical_threshold d = Some c \<longrightarrow> determine_parameter_status d (Some c) = Critical"
    using crossed_at_threshold [of d c] by (simp add: determine_parameter_status_def)
  have rpm: "lookup_param source_tables ''ENGINE_PARAMETERS.RPM'' = Inr d \<longrightarrow>
      min_normal d = Some 600 \<and>
      determine_parameter_status d (Some 300) = Warning \<and>
      determine_parameter_status d (Some 6200) = Warning \<and>
      determine_parameter_status d (Some 6500) = Critical"
  proof
    assume "lookup_param source_tables ''ENGINE_PARAMETERS.RPM'' = Inr d"
    then have d: "d = rpm_info" by (simp add: rpm_lookup)
    have "min_normal rpm_info = Some 600" by (simp add: rpm_info_def)
    with rpm_status show "min_normal d = Some 600 \<and>
      determine_parameter_status d (Some 300) = Warning \<and>
      determine_parameter_status d (Some 6200) = Warning \<and>
      determine_parameter_status d (Some 6500) = Critical"
      unfolding d by simp
  qed
  from general at_critical rpm show ?thesis by blast
qed

theorem status_evaluator_order_witness:
  "lookup_param source_tables ''ENGINE_PARAMETERS.RPM'' = Inr rpm_info \<and>
   critical_threshold rpm_info = Some 6500 \<and>
   \<not> in_normal_range rpm_info 300 \<and>
   determine_parameter_status rpm_info None = Unknown \<and>
   determine_parameter_status rpm_info (Some 300) = Warning \<and>
   determine_parameter_status rpm_info (Some 6200) = Warning \<and>
   determine_parameter_status rpm_info (Some 6500) = Critical"
  using status_evaluator_order [of rpm_info 6500 300] rpm_lookup
  by (simp add: rpm_info_def in_normal_range_def)

section \<open>Polling scheduler: auxiliary facts\<close>

lemma raise_alert_fields:
  "monitoring_active (raise_alert a s) = monitoring_active s"
  "active_profile (raise_alert a s) = active_profile s"
  "last_poll_time (raise_alert a s) = last_poll_time s"
  "current_values (raise_alert a s) = current_values s"
  "historical_data (raise_alert a s) = historical_data s"
  "source_reads (raise_alert a s) = source_reads s"
  "alerts (raise_alert a s) = alerts s @ [a]"
  "total_alerts (metadata (monitoring_data (raise_alert a s))) =
     total_alerts (metadata (monitoring_data s)) + 1"
  "session_alerts (current_session (monitoring_data (raise_alert a s))) =
     session_alerts (current_session (monitoring_data s)) @ [a]"
  "start_time (current_session (monitoring_data (raise_alert a s))) =
     start_time (current_session (monitoring_data s))"
  "historical_sessions (monitoring_data (raise_alert a s)) =
     historical_sessions (monitoring_data s)"
  by (simp_all add: raise_alert_def save_monitoring_data_def)

lemma append_to_session_fields:
  "monitoring_active (append_to_session p smp st s) = monitoring_active s"
  "active_profile (append_to_session p smp st s) = active_profile s"
  "last_poll_time (append_to_session p smp st s) = last_poll_time s"
  "current_values (append_to_session p smp st s) = current_values s"
  "historical_data (append_to_session p smp st s) = historical_data s"
  "source_reads (append_to_session p smp st s) = source_reads s"
  "alerts (append_to_session p smp st s) = alerts s"
  "saved (append_to_session p smp st s) = saved s"
  "metadata (monitoring_data (append_to_session p smp st s)) = metadata (monitoring_data s)"
  "session_alerts (current_session (monitoring_data (append_to_session p smp st s))) =
     session_alerts (current_session (monitoring_data s))"
  "start_time (current_session (monitoring_data (append_to_session p smp st s))) =
     start_time (current_session (monitoring_data s))"
  "historical_sessions (monitoring_data (append_to_session p smp st s)) =
     historical_sessions (monitoring_data s)"
  by (simp_all add: append_to_session_def split: option.splits)


lemma alert_manager_count:
  "total_alerts (metadata (monitoring_data (alert_manager pr p r st t s))) =
     total_alerts (metadata (monitoring_data s)) +
       (if raises_alert (alert_threshold pr) st then 1 else 0)"
  "length (alerts (alert_manager pr p r st t s)) =
     length (alerts s) + (if raises_alert (alert_threshold pr) st then 1 else 0)"
  by (simp_all add: alert_manager_def raise_alert_fields)


lemma poll_parameter_count:
  "total_alerts (metadata (monitoring_data (snd (poll_parameter env now pr p d s)))) -
     total_alerts (metadata (monitoring_data s)) =
   int (length (alerts (snd (poll_parameter env now pr p d s)))) - int (length (alerts s))"
  "length (alerts s) \<le> length (alerts (snd (poll_parameter env now pr p d s)))"
  by (simp_all add: poll_parameter_def Let_def append_to_session_fields alert_manager_count
      split: option.splits)





lemma update_loop_count:
  "total_alerts (metadata (monitoring_data (snd (update_loop cfg env now pr ps s)))) -
     total_alerts (metadata (monitoring_data s)) =
   int (length (alerts (snd (update_loop cfg env now pr ps s)))) - int (length (alerts s)) \<and>
   length (alerts s) \<le> length (alerts (snd (update_loop cfg env now pr ps s)))"
proof (induction ps arbitrary: s)
  case Nil
  show ?case by simp
next
  case (Cons p ps)
  show ?case
  proof (cases "lookup_param cfg p")
    case (Inl e)
    then show ?thesis by simp
  next
    case (Inr d)
    show ?thesis
    proof (cases "is_due now s p d")
      case False
      with Inr Cons.IH [where s = s] show ?thesis by simp
    next
      case True
      obtain r s1 where ps1: "poll_parameter env now pr p d s = (r, s1)"
        by (cases "poll_parameter env now pr p d s")
      note pc = poll_parameter_count [where env = env and now = now and pr = pr and p = p
        and d = d and s = s, unfolded ps1 snd_conv]
      show ?thesis
      proof (cases r)
        case None
        with Inr True ps1 have step:
          "update_loop cfg env now pr (p # ps) s = update_loop cfg env now pr ps s1" by simp
        from Cons.IH [where s = s1] pc show ?thesis unfolding step by linarith
      next
        case (Some e)
        with Inr True ps1 have step: "update_loop cfg env now pr (p # ps) s = (Some e, s1)"
          by simp
        from pc show ?thesis unfolding step by simp
      qed
    qed
  qed
qed



lemma update_parameters_count:
  "total_alerts (metadata (monitoring_data (snd (update_parameters cfg env now s)))) -
     total_alerts (metadata (monitoring_data s)) =
   int (length (alerts (snd (update_parameters cfg env now s)))) - int (length (alerts s)) \<and>
   length (alerts s) \<le> length (alerts (snd (update_parameters cfg env now s)))"
proof (cases "monitoring_active s")
  case False
  then show ?thesis by (simp add: update_parameters_def)
next
  case True
  show ?thesis
  proof (cases "map_of (profiles_table cfg) (active_profile s)")
    case None
    with True show ?thesis by (simp add: update_parameters_def)
  next
    case (Some pr)
    obtain r s' where ul: "update_loop cfg env now pr (profile_parameters pr) s = (r, s')"
      by (cases "update_loop cfg env now pr (profile_parameters pr) s")
    from True Some ul have "snd (update_parameters cfg env now s) = s'"
      by (cases r) (simp_all add: update_parameters_def)
    with update_loop_count [where cfg = cfg and env = env and now = now and pr = pr
        and ps = "profile_parameters pr" and s = s] ul
    show ?thesis by simp
  qed
qed














section \<open>Alert counter\<close>

lemma start_monitoring_alert_count:
  "alert_count (snd (start_monitoring cfg prof tm ts s)) = alert_count s"
proof (cases "monitoring_active s")
  case True
  then show ?thesis by (simp add: start_monitoring_def)
next
  case False
  show ?thesis
  proof (cases "map_of (profiles_table cfg) prof")
    case None
    with False show ?thesis
      by (simp add: start_monitoring_def alert_count_def begin_session_fields)
  next
    case (Some pr)
    obtain r s2 where init:
      "init_parameters cfg (profile_parameters pr) (begin_session prof tm ts s) = (r, s2)"
      by (cases "init_parameters cfg (profile_parameters pr) (begin_session prof tm ts s)")
    from init_parameters_frame [OF init]
    have "total_alerts (metadata (monitoring_data s2)) = total_alerts (metadata (monitoring_data s))"
      by (simp add: begin_session_fields)
    with False Some init show ?thesis
      by (cases r) (simp_all add: start_monitoring_def alert_count_def save_fields)
  qed
qed

lemma stop_monitoring_alert_count:
  "alert_count (snd (stop_monitoring te s)) = alert_count s"
  by (simp add: stop_monitoring_def alert_count_def save_monitoring_data_def Let_def
      split: option.splits)

lemma set_vehicle_info_alert_count:
  "alert_count (set_vehicle_info v mk mdl yr eng s) = alert_count s"
  by (simp add: set_vehicle_info_def alert_count_def save_monitoring_data_def)

lemma update_parameters_alert_count:
  "alert_count (snd (update_parameters cfg env now s)) =
     alert_count s +
       (int (length (alerts (snd (update_parameters cfg env now s)))) - int (length (alerts s)))"
  "alert_count s \<le> alert_count (snd (update_parameters cfg env now s))"
  using update_parameters_count [where cfg = cfg and env = env and now = now and s = s]
  by (simp_all add: alert_count_def)

lemma apply_operation_alert_count:
  "alert_count s \<le> alert_count (apply_operation cfg op s)"
  by (cases op)
    (simp_all add: start_monitoring_alert_count stop_monitoring_alert_count
      set_vehicle_info_alert_count update_parameters_alert_count(2))

lemma fold_operations_alert_count:
  "alert_count s \<le> alert_count (fold (apply_operation cfg) ops s)"
proof (induction ops arbitrary: s)
  case Nil
  show ?case by simp
next
  case (Cons op ops)
  have "alert_count s \<le> alert_count (apply_operation cfg op s)"
    by (rule apply_operation_alert_count)
  also have "\<dots> \<le> alert_count (fold (apply_operation cfg) ops (apply_operation cfg op s))"
    by (rule Cons.IH)
  finally show ?case by simp
qed

text \<open>
  C8. The total-alert counter of the document never decreases under an engine operation
  (setting the vehicle information, a start, a stop, a tick), whatever its outcome, nor
  under any sequence of operations, however often a parameter breaches its thresholds.
  Raising an alert increments the counter by one, and a tick increases it by exactly the
  number of alerts the tick raised.
\<close>

theorem total_alerts_never_decrease:
  "alert_count s \<le> alert_count (apply_operation cfg op s) \<and>
   alert_count s \<le> alert_count (fold (apply_operation cfg) ops s) \<and>
   alert_count (raise_alert a s) = alert_count s + 1 \<and>
   alert_count (snd (update_parameters cfg env now s)) =
     alert_count s +
       (int (length (alerts (snd (update_parameters cfg env now s)))) - int (length (alerts s)))"
  using apply_operation_alert_count [of s cfg op] fold_operations_alert_count [of s cfg ops]
    update_parameters_alert_count(1) [of cfg env now s]
  by (simp add: alert_count_def raise_alert_fields)

lemma new_monitor_alert_count: "alert_count (new_monitor prof) = 0"
  by (simp add: alert_count_def new_monitor_fields initial_document_def)

theorem total_alerts_never_decrease_witness:
  "alert_count (new_monitor ''STANDARD'') = 0 \<and>
   alert_count
     (fold (apply_operation source_tables)
        [StartMonitoring ''STANDARD'' 1000 1000, UpdateParameters hot_source 1000,
         UpdateParameters hot_source 1001, StopMonitoring 1060,
         StartMonitoring ''ECONOMY'' 2000 2000, UpdateParameters hot_source 2000]
        (new_monitor ''STANDARD'')) = 12 \<and>
   alert_count (new_monitor ''STANDARD'') \<le>
     alert_count
       (fold (apply_operation source_tables)
          [StartMonitoring ''STANDARD'' 1000 1000, UpdateParameters hot_source 1000,
           UpdateParameters hot_source 1001, StopMonitoring 1060,
           StartMonitoring ''ECONOMY'' 2000 2000, UpdateParameters hot_source 2000]
          (new_monitor ''STANDARD''))"
proof (intro conjI)
  show "alert_count (new_monitor ''STANDARD'') = 0" by (rule new_monitor_alert_count)
  show "alert_count
     (fold (apply_operation source_tables)
        [StartMonitoring ''STANDARD'' 1000 1000, UpdateParameters hot_source 1000,
         UpdateParameters hot_source 1001, StopMonitoring 1060,
         StartMonitoring ''ECONOMY'' 2000 2000, UpdateParameters hot_source 2000]
        (new_monitor ''STANDARD'')) = 12"
    by code_simp
  from total_alerts_never_decrease
    [where s = "new_monitor ''STANDARD''" and cfg = source_tables and ops =
        "[StartMonitoring ''STANDARD'' 1000 1000, UpdateParameters hot_source 1000,
         UpdateParameters hot_source 1001, StopMonitoring 1060,
         StartMonitoring ''ECONOMY'' 2000 2000, UpdateParameters hot_source 2000]"]
  show "alert_count (new_monitor ''STANDARD'') \<le>
     alert_count
       (fold (apply_operation source_tables)
          [StartMonitoring ''STANDARD'' 1000 1000, UpdateParameters hot_source 1000,
           UpdateParameters hot_source 1001, StopMonitoring 1060,
           StartMonitoring ''ECONOMY'' 2000 2000, UpdateParameters hot_source 2000]
          (new_monitor ''STANDARD''))"
    by blast
qed

section \<open>Profile validation\<close>

lemma init_parameters_first_error:
  "\<not> list_all (resolves cfg) ps \<Longrightarrow>
     \<exists>p e. p \<in> set ps \<and> lookup_param cfg p = Inl e \<and>
       fst (init_parameters cfg ps s) = Some e"
proof (induction ps arbitrary: s)
  case Nil
  then show ?case by simp
next
  case (Cons q ps)
  show ?case
  proof (cases "lookup_param cfg q")
    case (Inl e)
    then show ?thesis by auto
  next
    case (Inr d)
    then have "resolves cfg q" by (simp add: resolves_def)
    with Cons.prems have "\<not> list_all (resolves cfg) ps" by simp
    then obtain s1 where step: "init_parameters cfg (q # ps) s = init_parameters cfg ps s1"
      using Inr by simp
    from Cons.IH [OF \<open>\<not> list_all (resolves cfg) ps\<close>, of s1]
    obtain p e where "p \<in> set ps" "lookup_param cfg p = Inl e"
      "fst (init_parameters cfg ps s1) = Some e" by blast
    then show ?thesis unfolding step by auto
  qed
qed

lemma start_monitoring_invalid_parameter:
  assumes "\<not> monitoring_active s" and "map_of (profiles_table cfg) prof = Some pr"
    and "\<not> list_all (resolves cfg) (profile_parameters pr)"
  shows "\<exists>p e. p \<in> set (profile_parameters pr) \<and> lookup_param cfg p = Inl e \<and>
           fst (start_monitoring cfg prof tm ts s) = Raised e"
proof -
  from init_parameters_first_error [OF assms(3), of "begin_session prof tm ts s"]
  obtain p e where pe: "p \<in> set (profile_parameters pr)" "lookup_param cfg p = Inl e"
    "fst (init_parameters cfg (profile_parameters pr) (begin_session prof tm ts s)) = Some e"
    by blast
  from pe(3) assms(1,2) have "fst (start_monitoring cfg prof tm ts s) = Raised e"
    by (cases "init_parameters cfg (profile_parameters pr) (begin_session prof tm ts s)")
      (simp add: start_monitoring_def)
  with pe(1,2) show ?thesis by blast
qed

lemma start_monitoring_succeeds_iff:
  assumes "\<not> monitoring_active s"
  shows "fst (start_monitoring cfg prof tm ts s) = Returned True \<longleftrightarrow> valid_profile cfg prof"
proof
  assume ok: "fst (start_monitoring cfg prof tm ts s) = Returned True"
  show "valid_profile cfg prof"
  proof (cases "map_of (profiles_table cfg) prof")
    case None
    with assms ok show ?thesis by (simp add: start_monitoring_def)
  next
    case (Some pr)
    show ?thesis
    proof (rule ccontr)
      assume "\<not> valid_profile cfg prof"
      with Some have "\<not> list_all (resolves cfg) (profile_parameters pr)"
        by (simp add: valid_profile_def)
      from start_monitoring_invalid_parameter [OF assms Some this, of tm ts] ok
      show False by auto
    qed
  qed
next
  assume "valid_profile cfg prof"
  then show "fst (start_monitoring cfg prof tm ts s) = Returned True"
    by (rule start_monitoring_valid_active(1) [OF assms])
qed

text \<open>A start from the Idle state that does not return True leaves a session open.\<close>

lemma start_monitoring_failed_state:
  assumes "\<not> monitoring_active s"
    and "fst (start_monitoring cfg prof tm ts s) \<noteq> Returned True"
  shows "monitoring_active (snd (start_monitoring cfg prof tm ts s))"
    and "start_time (current_session (monitoring_data (snd (start_monitoring cfg prof tm ts s)))) =
           Some ts"
proof -
  have "monitoring_active (snd (start_monitoring cfg prof tm ts s)) \<and>
    start_time (current_session (monitoring_data (snd (start_monitoring cfg prof tm ts s)))) =
           Some ts"
  proof (cases "map_of (profiles_table cfg) prof")
    case None
    with assms(1) show ?thesis
      by (simp add: start_monitoring_def begin_session_fields empty_session_def)
  next
    case (Some pr)
    obtain r s2 where init:
      "init_parameters cfg (profile_parameters pr) (begin_session prof tm ts s) = (r, s2)"
      by (cases "init_parameters cfg (profile_parameters pr) (begin_session prof tm ts s)")
    from init_parameters_frame [OF init]
    have "monitoring_active s2"
      "start_time (current_session (monitoring_data s2)) = Some ts"
      by (simp_all add: begin_session_fields empty_session_def)
    with assms Some init show ?thesis
      by (cases r) (simp_all add: start_monitoring_def save_fields)
  qed
  then show "monitoring_active (snd (start_monitoring cfg prof tm ts s))"
    and "start_time (current_session (monitoring_data (snd (start_monitoring cfg prof tm ts s)))) =
           Some ts" by simp_all
qed


text \<open>
  The object that a start with an unknown profile name leaves behind is in the
  Monitoring state under that name, so a tick on it raises the same lookup error until
  stop is called.
\<close>

lemma update_parameters_after_unknown_profile:
  assumes "\<not> monitoring_active s" and "map_of (profiles_table cfg) prof = None"
  shows "fst (update_parameters cfg env now (snd (start_monitoring cfg prof tm ts s))) =
    Raised (KeyError prof)"
  using assms
  by (simp add: start_monitoring_unknown_profile update_parameters_def begin_session_fields)


section \<open>Merged trouble-code database\<close>

lemma fold_merge_lookup:
  assumes step: "\<And>c e m k. map_of (f (c, e) m) k =
      (if k = c then Some (g (map_of m c) e) else map_of m k)"
    and "distinct (map fst items)"
  shows "map_of (fold f items m) k =
    (case map_of items k of None \<Rightarrow> map_of m k | Some e \<Rightarrow> Some (g (map_of m k) e))"
  using assms(2)
proof (induction items arbitrary: m)
  case Nil
  show ?case by simp
next
  case (Cons item items)
  obtain c e where item: "item = (c, e)" by (cases item)
  from Cons.prems have fresh: "c \<notin> fst ` set items" and dist: "distinct (map fst items)"
    by (simp_all add: item)
  from fresh have none: "map_of items c = None" by (simp add: map_of_eq_None_iff)
  show ?case
  proof (cases "k = c")
    case True
    with Cons.IH [OF dist, of "f (c, e) m"] none show ?thesis
      by (simp add: item step)
  next
    case False
    then have "map_of (f (c, e) m) k = map_of m k" by (simp add: step)
    with False Cons.IH [OF dist, of "f (c, e) m"] show ?thesis
      by (simp add: item split: option.splits)
  qed
qed

lemma dict_update_step:
  "map_of ((\<lambda>(k, v) acc. AList.update k v acc) (c, e) m) k =
     (if k = c then Some ((\<lambda>old new. new) (map_of m c) e) else map_of m k)"
  by (simp add: update_conv')

lemma merge_new_2007_step:
  "map_of (merge_new_2007 (c, e) m) k =
     (if k = c
      then Some ((\<lambda>old new. case old of
                    None \<Rightarrow> new
                  | Some x \<Rightarrow>
                      x\<lparr>dtc_description :=
                          (if dtc_description x = [] then dtc_description new
                           else dtc_description x),
                        dtc_source := dtc_source x @ '',new_2007''\<rparr>) (map_of m c) e)
      else map_of m k)"
  by (simp add: merge_new_2007_def update_conv' Let_def split: option.splits)

lemma merge_rac_step:
  "map_of (merge_rac (c, e) m) k =
     (if k = c
      then Some ((\<lambda>old new. case old of
                    None \<Rightarrow> new
                  | Some x \<Rightarrow> x\<lparr>dtc_source := dtc_source x @ '',rac''\<rparr>) (map_of m c) e)
      else map_of m k)"
  by (simp add: merge_rac_def update_conv' split: option.splits)

lemma merge_dtc_databases_lookup:
  assumes "distinct (map fst primary_dtcs)" and "distinct (map fst new_2007_dtcs)"
    and "distinct (map fst rac_dtcs)"
  shows "map_of (merge_dtc_databases primary_dtcs new_2007_dtcs rac_dtcs) c =
    (case map_of primary_dtcs c of
       Some x \<Rightarrow>
         Some (x\<lparr>dtc_description :=
                   (if dtc_description x = []
                    then (case map_of new_2007_dtcs c of
                            None \<Rightarrow> [] | Some e \<Rightarrow> dtc_description e)
                    else dtc_description x),
                 dtc_source := dtc_source x @
                   (case map_of new_2007_dtcs c of None \<Rightarrow> [] | Some e \<Rightarrow> '',new_2007'') @
                   (case map_of rac_dtcs c of None \<Rightarrow> [] | Some e \<Rightarrow> '',rac'')\<rparr>)
     | None \<Rightarrow>
         (case map_of new_2007_dtcs c of
            Some e \<Rightarrow>
              Some (e\<lparr>dtc_source := dtc_source e @
                     (case map_of rac_dtcs c of None \<Rightarrow> [] | Some e \<Rightarrow> '',rac'')\<rparr>)
          | None \<Rightarrow> map_of rac_dtcs c))"
proof -
  have p: "map_of (dict_update [] primary_dtcs) c = map_of primary_dtcs c"
    unfolding dict_update_def
    using fold_merge_lookup [of "\<lambda>(k, v) acc. AList.update k v acc" "\<lambda>old new. new",
        OF dict_update_step assms(1), of "[]" c]
    by (simp split: option.splits)
  note n = fold_merge_lookup [OF merge_new_2007_step assms(2),
      of "dict_update [] primary_dtcs" c]
  note r = fold_merge_lookup [OF merge_rac_step assms(3),
      of "fold merge_new_2007 new_2007_dtcs (dict_update [] primary_dtcs)" c]
  show ?thesis
    unfolding merge_dtc_databases_def r n p
    by (simp split: option.splits)
qed

lemma provenance_strings:
  "set (split_on CHR '','' ''primary'') = {''primary''}"
  "set (split_on CHR '','' ''new_2007'') = {''new_2007''}"
  "set (split_on CHR '','' ''rac'') = {''rac''}"
  "set (split_on CHR '','' ''primary,new_2007'') = {''primary'', ''new_2007''}"
  "set (split_on CHR '','' ''primary,rac'') = {''primary'', ''rac''}"
  "set (split_on CHR '','' ''new_2007,rac'') = {''new_2007'', ''rac''}"
  "set (split_on CHR '','' ''primary,new_2007,rac'') = {''primary'', ''new_2007'', ''rac''}"
  by simp_all

text \<open>
  C9, as amended. Merging is a function of the three databases, applied in the order
  primary, new_2007, rac (each a dict, so with distinct keys). For a code of the
  primary source the merged record keeps the primary's fields, except that an empty
  description is replaced by the description of the new_2007 record of that code, if
  there is one; the rac source never fills a description. A code absent from the
  primary source is taken from new_2007 with all its fields but the provenance, else
  from rac unchanged. The provenance
  string of a merged record is the source of its first contributor followed by
  \<^verbatim>\<open>,new_2007\<close> and \<^verbatim>\<open>,rac\<close> for each later source that has the code; when the
  records of each input carry the name of their source, the names so joined are exactly
  the set of sources that have the code.
\<close>

theorem merge_fills_description_from_new_2007_only:
  assumes "distinct (map fst primary_dtcs)" and "distinct (map fst new_2007_dtcs)"
    and "distinct (map fst rac_dtcs)"
  shows
    "map_of (merge_dtc_databases primary_dtcs new_2007_dtcs rac_dtcs) c =
      (case map_of primary_dtcs c of
         Some x \<Rightarrow>
           Some (x\<lparr>dtc_description :=
                     (if dtc_description x = []
                      then (case map_of new_2007_dtcs c of
                              None \<Rightarrow> [] | Some e \<Rightarrow> dtc_description e)
                      else dtc_description x),
                   dtc_source := dtc_source x @
                     (case map_of new_2007_dtcs c of None \<Rightarrow> [] | Some e \<Rightarrow> '',new_2007'') @
                     (case map_of rac_dtcs c of None \<Rightarrow> [] | Some e \<Rightarrow> '',rac'')\<rparr>)
       | None \<Rightarrow>
           (case map_of new_2007_dtcs c of
              Some e \<Rightarrow>
                Some (e\<lparr>dtc_source := dtc_source e @
                       (case map_of rac_dtcs c of None \<Rightarrow> [] | Some e \<Rightarrow> '',rac'')\<rparr>)
            | None \<Rightarrow> map_of rac_dtcs c)) \<and>
     ((\<forall>x. map_of primary_dtcs c = Some x \<longrightarrow> dtc_source x = ''primary'') \<and>
      (\<forall>x. map_of new_2007_dtcs c = Some x \<longrightarrow> dtc_source x = ''new_2007'') \<and>
      (\<forall>x. map_of rac_dtcs c = Some x \<longrightarrow> dtc_source x = ''rac'') \<longrightarrow>
      (\<forall>d. map_of (merge_dtc_databases primary_dtcs new_2007_dtcs rac_dtcs) c = Some d \<longrightarrow>
         provenance d =
           (if map_of primary_dtcs c = None then {} else {''primary''}) \<union>
           (if map_of new_2007_dtcs c = None then {} else {''new_2007''}) \<union>
           (if map_of rac_dtcs c = None then {} else {''rac''})))"
proof (rule conjI)
  note look = merge_dtc_databases_lookup [OF assms, of c]
  show "map_of (merge_dtc_databases primary_dtcs new_2007_dtcs rac_dtcs) c =
      (case map_of primary_dtcs c of
         Some x \<Rightarrow>
           Some (x\<lparr>dtc_description :=
                     (if dtc_description x = []
                      then (case map_of new_2007_dtcs c of
                              None \<Rightarrow> [] | Some e \<Rightarrow> dtc_description e)
                      else dtc_description x),
                   dtc_source := dtc_source x @
                     (case map_of new_2007_dtcs c of None \<Rightarrow> [] | Some e \<Rightarrow> '',new_2007'') @
                     (case map_of rac_dtcs c of None \<Rightarrow> [] | Some e \<Rightarrow> '',rac'')\<rparr>)
       | None \<Rightarrow>
           (case map_of new_2007_dtcs c of
              Some e \<Rightarrow>
                Some (e\<lparr>dtc_source := dtc_source e @
                       (case map_of rac_dtcs c of None \<Rightarrow> [] | Some e \<Rightarrow> '',rac'')\<rparr>)
            | None \<Rightarrow> map_of rac_dtcs c))"
    by (rule look)
  show "(\<forall>x. map_of primary_dtcs c = Some x \<longrightarrow> dtc_source x = ''primary'') \<and>
      (\<forall>x. map_of new_2007_dtcs c = Some x \<longrightarrow> dtc_source x = ''new_2007'') \<and>
      (\<forall>x. map_of rac_dtcs c = Some x \<longrightarrow> dtc_source x = ''rac'') \<longrightarrow>
      (\<forall>d. map_of (merge_dtc_databases primary_dtcs new_2007_dtcs rac_dtcs) c = Some d \<longrightarrow>
         provenance d =
           (if map_of primary_dtcs c = None then {} else {''primary''}) \<union>
           (if map_of new_2007_dtcs c = None then {} else {''new_2007''}) \<union>
           (if map_of rac_dtcs c = None then {} else {''rac''}))"
    unfolding look provenance_def
    using provenance_strings
    by (cases "map_of primary_dtcs c"; cases "map_of new_2007_dtcs c";
        cases "map_of rac_dtcs c") (auto simp del: split_on.simps)
qed

theorem merge_fills_description_from_new_2007_only_witness:
  "distinct (map fst primary_gap) \<and> distinct (map fst new_2007_entry) \<and>
   distinct (map fst rac_entry) \<and>
   map_of (merge_dtc_databases primary_gap new_2007_entry rac_entry) ''P0001'' =
     Some \<lparr>dtc_code = ''P0001'', dtc_title = ''Fuel Volume Regulator Control Circuit'',
           dtc_description = ''Fuel Volume Regulator Control Circuit/Open'',
           possible_causes = [[]], diagnostic_aids = [],
           dtc_source = ''primary,new_2007,rac''\<rparr> \<and>
   map_of (merge_dtc_databases primary_gap new_2007_entry rac_entry) ''P0002'' =
     Some \<lparr>dtc_code = ''P0002'', dtc_title = ''Fuel Volume Regulator Range'',
           dtc_description = ''Fuel Volume Regulator Range'',
           possible_causes = [], diagnostic_aids = [], dtc_source = ''new_2007''\<rparr> \<and>
   provenance
     \<lparr>dtc_code = ''P0001'', dtc_title = ''Fuel Volume Regulator Control Circuit'',
      dtc_description = ''Fuel Volume Regulator Control Circuit/Open'',
      possible_causes = [[]], diagnostic_aids = [],
      dtc_source = ''primary,new_2007,rac''\<rparr> = {''primary'', ''new_2007'', ''rac''}"
proof -
  have d: "distinct (map fst primary_gap)" "distinct (map fst new_2007_entry)"
    "distinct (map fst rac_entry)"
    by (simp_all add: primary_gap_def new_2007_entry_def rac_entry_def)
  note m = merge_fills_description_from_new_2007_only [OF d]
  have look:
    "map_of primary_gap ''P0001'' = Some (snd (hd primary_gap))"
    "map_of new_2007_entry ''P0001'' = Some (snd (hd new_2007_entry))"
    "map_of rac_entry ''P0001'' = Some (snd (hd rac_entry))"
    "map_of primary_gap ''P0002'' = None"
    "map_of new_2007_entry ''P0002'' = Some (snd (new_2007_entry ! 1))"
    "map_of rac_entry ''P0002'' = None"
    by (simp_all add: primary_gap_def new_2007_entry_def rac_entry_def)
  have one: "map_of (merge_dtc_databases primary_gap new_2007_entry rac_entry) ''P0001'' =
     Some \<lparr>dtc_code = ''P0001'', dtc_title = ''Fuel Volume Regulator Control Circuit'',
           dtc_description = ''Fuel Volume Regulator Control Circuit/Open'',
           possible_causes = [[]], diagnostic_aids = [],
           dtc_source = ''primary,new_2007,rac''\<rparr>"
    using m [of "''P0001''"] by (simp add: look) (simp add: primary_gap_def new_2007_entry_def)
  have two: "map_of (merge_dtc_databases primary_gap new_2007_entry rac_entry) ''P0002'' =
     Some \<lparr>dtc_code = ''P0002'', dtc_title = ''Fuel Volume Regulator Range'',
           dtc_description = ''Fuel Volume Regulator Range'',
           possible_causes = [], diagnostic_aids = [], dtc_source = ''new_2007''\<rparr>"
    using m [of "''P0002''"] by (simp add: look) (simp add: new_2007_entry_def)
  have three: "provenance
     \<lparr>dtc_code = ''P0001'', dtc_title = ''Fuel Volume Regulator Control Circuit'',
      dtc_description = ''Fuel Volume Regulator Control Circuit/Open'',
      possible_causes = [[]], diagnostic_aids = [],
      dtc_source = ''primary,new_2007,rac''\<rparr> = {''primary'', ''new_2007'', ''rac''}"
    by (simp add: provenance_def)
  from d one two three show ?thesis by blast
qed

text \<open>
  C9 as stated fails on the third source: a primary record with an empty description
  and a rac record for the same code that has a description merge into a record whose
  description is still empty, although rac is named in its provenance.
\<close>

theorem merge_rac_leaves_description_empty:
  "map_of primary_gap ''P0001'' =
     Some \<lparr>dtc_code = ''P0001'', dtc_title = ''Fuel Volume Regulator Control Circuit'',
           dtc_description = [], possible_causes = [[]], diagnostic_aids = [],
           dtc_source = ''primary''\<rparr> \<and>
   map_of rac_entry ''P0001'' =
     Some \<lparr>dtc_code = ''P0001'', dtc_title = ''Fuel regulator'',
           dtc_description = ''Regulator circuit open'', possible_causes = [],
           diagnostic_aids = [], dtc_source = ''rac''\<rparr> \<and>
   map_of (merge_dtc_databases primary_gap [] rac_entry) ''P0001'' =
     Some \<lparr>dtc_code = ''P0001'', dtc_title = ''Fuel Volume Regulator Control Circuit'',
           dtc_description = [], possible_causes = [[]], diagnostic_aids = [],
           dtc_source = ''primary,rac''\<rparr>"
  by (simp add: primary_gap_def rac_entry_def merge_dtc_databases_def dict_update_def
      merge_rac_def)

section \<open>Configuration errors\<close>



lemma init_parameters_first_error_eq:
  "fst (init_parameters cfg ps s) = first_error cfg ps"
  by (induction ps arbitrary: s) (auto split: sum.splits)

lemma init_parameters_history_dom:
  "dom (historical_data s) \<union> set (takeWhile (resolves cfg) ps)
     \<subseteq> dom (historical_data (snd (init_parameters cfg ps s)))"
proof (induction ps arbitrary: s)
  case Nil
  show ?case by simp
next
  case (Cons p ps)
  show ?case
  proof (cases "lookup_param cfg p")
    case (Inl e)
    then show ?thesis by (simp add: resolves_def)
  next
    case (Inr d)
    then obtain s1 where step: "init_parameters cfg (p # ps) s = init_parameters cfg ps s1"
      and hist: "historical_data s1 = (historical_data s)(p \<mapsto> [])"
      by simp
    from Inr have res: "resolves cfg p" by (simp add: resolves_def)
    let ?D = "dom (historical_data (snd (init_parameters cfg ps s1)))"
    have a: "dom (historical_data s) \<subseteq> dom (historical_data s1)"
      and b: "p \<in> dom (historical_data s1)" by (auto simp: hist)
    from Cons.IH [of s1] have c: "dom (historical_data s1) \<subseteq> ?D"
      and d: "set (takeWhile (resolves cfg) ps) \<subseteq> ?D" by simp_all
    have tw: "set (takeWhile (resolves cfg) (p # ps)) =
        insert p (set (takeWhile (resolves cfg) ps))"
      using res by simp
    from a c have e1: "dom (historical_data s) \<subseteq> ?D" by (rule subset_trans)
    from c b have e2: "p \<in> ?D" by (rule subsetD)
    from e1 e2 d show ?thesis unfolding step tw by simp
  qed
qed


lemma start_monitoring_outcome:
  assumes "\<not> monitoring_active s"
  shows "fst (start_monitoring cfg prof tm ts s) =
    (case start_error cfg prof of None \<Rightarrow> Returned True | Some e \<Rightarrow> Raised e)"
proof (cases "map_of (profiles_table cfg) prof")
  case None
  with assms show ?thesis by (simp add: start_monitoring_def start_error_def)
next
  case (Some pr)
  obtain r s2 where init:
    "init_parameters cfg (profile_parameters pr) (begin_session prof tm ts s) = (r, s2)"
    by (cases "init_parameters cfg (profile_parameters pr) (begin_session prof tm ts s)")
  with init_parameters_first_error_eq [of cfg "profile_parameters pr" "begin_session prof tm ts s"]
  have "r = first_error cfg (profile_parameters pr)" by simp
  with assms Some init show ?thesis
    by (simp add: start_monitoring_def start_error_def split: option.splits)
qed

text \<open>The object that a start from the Idle state leaves behind when it raises.\<close>

lemma start_monitoring_raised_state:
  fixes cfg :: config and prof :: string and tm ts :: real and s :: monitor
  defines "failed \<equiv> snd (start_monitoring cfg prof tm ts s)"
  assumes idle: "\<not> monitoring_active s" and err: "start_error cfg prof = Some e"
  shows "monitoring_active failed"
    and "active_profile failed = prof"
    and "saved failed = saved s"
    and "start_time (current_session (monitoring_data failed)) = Some ts"
    and "md_active_profile (metadata (monitoring_data failed)) = prof"
    and "monitoring_start_time (metadata (monitoring_data failed)) = Some tm"
    and "historical_sessions (monitoring_data failed) = historical_sessions (monitoring_data s)"
    and "\<And>pr. map_of (profiles_table cfg) prof = Some pr \<Longrightarrow>
           set (takeWhile (resolves cfg) (profile_parameters pr)) \<subseteq> dom (historical_data failed)"
proof -
  have "monitoring_active failed \<and> active_profile failed = prof \<and> saved failed = saved s \<and>
    start_time (current_session (monitoring_data failed)) = Some ts \<and>
    md_active_profile (metadata (monitoring_data failed)) = prof \<and>
    monitoring_start_time (metadata (monitoring_data failed)) = Some tm \<and>
    historical_sessions (monitoring_data failed) = historical_sessions (monitoring_data s) \<and>
    (\<forall>pr. map_of (profiles_table cfg) prof = Some pr \<longrightarrow>
       set (takeWhile (resolves cfg) (profile_parameters pr)) \<subseteq> dom (historical_data failed))"
  proof (cases "map_of (profiles_table cfg) prof")
    case None
    with idle show ?thesis
      by (simp add: failed_def start_monitoring_def begin_session_fields empty_session_def)
  next
    case (Some pr)
    let ?b = "begin_session prof tm ts s"
    obtain r s2 where init: "init_parameters cfg (profile_parameters pr) ?b = (r, s2)"
      by (cases "init_parameters cfg (profile_parameters pr) ?b")
    from err Some have fe: "first_error cfg (profile_parameters pr) = Some e"
      by (simp add: start_error_def)
    with init init_parameters_first_error_eq [of cfg "profile_parameters pr" ?b]
    have r: "r = Some e" by simp
    with idle Some init have f: "failed = s2" by (simp add: failed_def start_monitoring_def)
    from init_parameters_history_dom [of ?b cfg "profile_parameters pr"] init
    have "set (takeWhile (resolves cfg) (profile_parameters pr)) \<subseteq> dom (historical_data s2)"
      by simp
    with init_parameters_frame [OF init] Some show ?thesis
      unfolding f by (simp add: begin_session_fields empty_session_def)
  qed
  then show "monitoring_active failed"
    and "active_profile failed = prof"
    and "saved failed = saved s"
    and "start_time (current_session (monitoring_data failed)) = Some ts"
    and "md_active_profile (metadata (monitoring_data failed)) = prof"
    and "monitoring_start_time (metadata (monitoring_data failed)) = Some tm"
    and "historical_sessions (monitoring_data failed) = historical_sessions (monitoring_data s)"
    and "\<And>pr. map_of (profiles_table cfg) prof = Some pr \<Longrightarrow>
           set (takeWhile (resolves cfg) (profile_parameters pr)) \<subseteq> dom (historical_data failed)"
    by simp_all
qed






section \<open>Duration of a closed session\<close>

text \<open>
  C5, as amended. From the Idle state, a start with a valid profile followed by a stop
  both succeed; exactly one session is appended to the historical sessions, namely the
  session that was current, with its duration set to the stop's clock reading minus the
  session's start reading; its start timestamp is set (not the empty string); the
  current session is the empty placeholder again and the engine is Idle. The duration is
  not negative when the stop's reading is not before the start's, and negative when it
  is: the two readings of \<^verbatim>\<open>datetime.now()\<close> are subtracted as they come.
\<close>

theorem start_then_stop_historizes_one_session:
  fixes cfg :: config and prof :: string and t_meta t_start t_end :: real and s :: monitor
  defines "s1 \<equiv> snd (start_monitoring cfg prof t_meta t_start s)"
  defines "s2 \<equiv> snd (stop_monitoring t_end s1)"
  assumes idle: "\<not> monitoring_active s"
    and valid: "valid_profile cfg prof"
  shows "fst (start_monitoring cfg prof t_meta t_start s) = Returned True \<and>
         fst (stop_monitoring t_end s1) = Returned True \<and>
         historical_sessions (monitoring_data s2) =
           historical_sessions (monitoring_data s) @
             [(current_session (monitoring_data s1))\<lparr>duration := t_end - t_start\<rparr>] \<and>
         start_time (current_session (monitoring_data s1)) = Some t_start \<and>
         start_time (last (historical_sessions (monitoring_data s2))) = Some t_start \<and>
         duration (last (historical_sessions (monitoring_data s2))) = t_end - t_start \<and>
         (t_start \<le> t_end \<longrightarrow> 0 \<le> duration (last (historical_sessions (monitoring_data s2)))) \<and>
         (t_end < t_start \<longrightarrow> duration (last (historical_sessions (monitoring_data s2))) < 0) \<and>
         current_session (monitoring_data s2) = empty_session \<and>
         \<not> monitoring_active s2"
proof -
  have act: "monitoring_active s1"
    unfolding s1_def by (rule start_monitoring_valid_active(2) [OF idle valid])
  have st: "start_time (current_session (monitoring_data s1)) = Some t_start"
    unfolding s1_def by (rule start_monitoring_valid_session(1) [OF idle valid])
  have hist: "historical_sessions (monitoring_data s1) = historical_sessions (monitoring_data s)"
    unfolding s1_def by (rule start_monitoring_valid_session(2) [OF idle valid])
  note stop = stop_monitoring_running [OF act st, of t_end]
  show ?thesis
    using start_monitoring_valid_active(1) [OF idle valid, of t_meta t_start] st hist
    by (simp add: s2_def stop save_fields)
qed

theorem start_then_stop_historizes_one_session_witness:
  "\<not> monitoring_active (new_monitor ''STANDARD'') \<and>
   valid_profile source_tables ''STANDARD'' \<and>
   fst (start_monitoring source_tables ''STANDARD'' 1000 1000 (new_monitor ''STANDARD'')) =
     Returned True \<and>
   fst (stop_monitoring 1060 standard_run) = Returned True \<and>
   historical_sessions (monitoring_data (snd (stop_monitoring 1060 standard_run))) =
     [(current_session (monitoring_data standard_run))\<lparr>duration := 60\<rparr>] \<and>
   start_time (current_session (monitoring_data standard_run)) = Some 1000 \<and>
   duration (last (historical_sessions
     (monitoring_data (snd (stop_monitoring 1060 standard_run))))) = 60 \<and>
   current_session (monitoring_data (snd (stop_monitoring 1060 standard_run))) = empty_session \<and>
   \<not> monitoring_active (snd (stop_monitoring 1060 standard_run))"
  using start_then_stop_historizes_one_session
    [OF new_monitor_idle [of "''STANDARD''"] source_profiles_valid(1),
      where t_meta = 1000 and t_start = 1000 and t_end = 1060]
    new_monitor_idle [of "''STANDARD''"] source_profiles_valid(1)
  by (simp add: standard_run_def new_monitor_fields initial_document_def)

text \<open>
  C5 as stated fails when the wall clock is set back between start and stop: a session
  started at reading 1000 and stopped at reading 990 is closed with duration -10.
\<close>

theorem stop_before_start_negative_duration:
  "fst (start_monitoring source_tables ''STANDARD'' 1000 1000 (new_monitor ''STANDARD'')) =
     Returned True \<and>
   fst (stop_monitoring 990
          (snd (start_monitoring source_tables ''STANDARD'' 1000 1000
                  (new_monitor ''STANDARD'')))) = Returned True \<and>
   duration (last (historical_sessions (monitoring_data
     (snd (stop_monitoring 990
            (snd (start_monitoring source_tables ''STANDARD'' 1000 1000
                    (new_monitor ''STANDARD''))))))))
     = - 10"
proof -
  note st = standard_run_start [unfolded standard_run_def]
  have "stop_monitoring 990 standard_run =
    (Returned True,
     save_monitoring_data
       (standard_run\<lparr>monitoring_data := (monitoring_data standard_run)
            \<lparr>current_session := empty_session,
             historical_sessions := historical_sessions (monitoring_data standard_run) @
               [(current_session (monitoring_data standard_run))\<lparr>duration := 990 - 1000\<rparr>]\<rparr>,
          monitoring_active := False\<rparr>))"
    by (rule stop_monitoring_running [OF standard_run_active standard_run_fields(1)])
  then show ?thesis
    using st by (simp add: standard_run_def [symmetric] save_fields)
qed

section \<open>Saving\<close>

text \<open>
  C7, as amended. Each operation of the session manager that completes hands the
  document to \<^verbatim>\<open>save_monitoring_data\<close> as its last step: after setting the vehicle
  information, after a start that returns True and after a stop that returns True, the
  list of saved documents is the old list followed by the in-memory document as the
  operation leaves it. A start or stop that returns False, and a stop that raises, have
  changed nothing. A start that raises does so on a configuration error of the profile,
  after it has rewritten the profile name, the start times and the current session in
  the document, and it saves nothing.
\<close>

theorem session_operations_write_through:
  "saved (set_vehicle_info v mk mdl yr eng s) =
     saved s @ [monitoring_data (set_vehicle_info v mk mdl yr eng s)] \<and>
   (start_monitoring cfg prof t_meta t_session s = (Returned True, s1) \<longrightarrow>
      saved s1 = saved s @ [monitoring_data s1]) \<and>
   (start_monitoring cfg prof t_meta t_session s = (Returned False, s1) \<longrightarrow> s1 = s) \<and>
   (stop_monitoring t_end s = (Returned True, s2) \<longrightarrow>
      saved s2 = saved s @ [monitoring_data s2]) \<and>
   (stop_monitoring t_end s = (Returned False, s2) \<longrightarrow> s2 = s) \<and>
   (stop_monitoring t_end s = (Raised e, s2) \<longrightarrow> s2 = s) \<and>
   (start_monitoring cfg prof t_meta t_session s = (Raised e, s1) \<longrightarrow>
      start_error cfg prof = Some e \<and>
      saved s1 = saved s \<and>
      md_active_profile (metadata (monitoring_data s1)) = prof \<and>
      monitoring_start_time (metadata (monitoring_data s1)) = Some t_meta \<and>
      start_time (current_session (monitoring_data s1)) = Some t_session)"
proof -
  have raise: "start_error cfg prof = Some e \<and>
      saved s1 = saved s \<and>
      md_active_profile (metadata (monitoring_data s1)) = prof \<and>
      monitoring_start_time (metadata (monitoring_data s1)) = Some t_meta \<and>
      start_time (current_session (monitoring_data s1)) = Some t_session"
    if r: "start_monitoring cfg prof t_meta t_session s = (Raised e, s1)"
  proof -
    from r have idle: "\<not> monitoring_active s"
      by (auto simp: start_monitoring_def split: if_splits)
    from start_monitoring_outcome [OF idle, of cfg prof t_meta t_session] r
    have err: "start_error cfg prof = Some e" by (simp split: option.splits)
    from r have s1: "s1 = snd (start_monitoring cfg prof t_meta t_session s)" by simp
    from start_monitoring_raised_state [OF idle err, where tm = t_meta and ts = t_session] err
    show ?thesis unfolding s1 by simp
  qed
  have stop_raise: "stop_monitoring t_end s = (Raised e, s2) \<longrightarrow> s2 = s"
    by (auto simp: stop_monitoring_def Let_def split: if_splits option.splits)
  from raise stop_raise start_monitoring_outcomes [of cfg prof t_meta t_session s _ s1]
    stop_monitoring_outcomes [of t_end s _ s2]
  show ?thesis
    by (auto simp: set_vehicle_info_def save_monitoring_data_def)
qed

theorem session_operations_write_through_witness:
  "saved (set_vehicle_info ''VIN'' ''Make'' ''Model'' ''2020'' ''V6'' (new_monitor ''STANDARD'')) =
     [initial_document ''STANDARD'',
      monitoring_data
        (set_vehicle_info ''VIN'' ''Make'' ''Model'' ''2020'' ''V6'' (new_monitor ''STANDARD''))] \<and>
   saved standard_run = [initial_document ''STANDARD'', monitoring_data standard_run] \<and>
   saved (snd (stop_monitoring 1060 standard_run)) =
     [initial_document ''STANDARD'', monitoring_data standard_run,
      monitoring_data (snd (stop_monitoring 1060 standard_run))] \<and>
   snd (start_monitoring source_tables ''ECONOMY'' 2000 2000 standard_run) = standard_run \<and>
   snd (stop_monitoring 1000 (new_monitor ''STANDARD'')) = new_monitor ''STANDARD'' \<and>
   start_monitoring source_tables ''BOGUS'' 1000 1000 (new_monitor ''STANDARD'') =
     (Raised (KeyError ''BOGUS''), bogus_run) \<and>
   saved bogus_run = [initial_document ''STANDARD''] \<and>
   md_active_profile (metadata (monitoring_data bogus_run)) = ''BOGUS''"
proof -
  note a = session_operations_write_through
    [of "''VIN''" "''Make''" "''Model''" "''2020''" "''V6''" "new_monitor ''STANDARD''"
      source_tables "''STANDARD''" 1000 1000 standard_run 1000 "new_monitor ''STANDARD''"]
  note b = session_operations_write_through
    [of "''VIN''" "''Make''" "''Model''" "''2020''" "''V6''" standard_run
      source_tables "''ECONOMY''" 2000 2000 standard_run 1060
      "snd (stop_monitoring 1060 standard_run)"]
  note c' = session_operations_write_through
    [where s = "new_monitor ''STANDARD''" and cfg = source_tables and prof = "''BOGUS''"
      and t_meta = 1000 and t_session = 1000 and ?s1.0 = bogus_run
      and e = "KeyError ''BOGUS''"]
  have c: "stop_monitoring 1000 (new_monitor ''STANDARD'') =
             (Returned False, new_monitor ''STANDARD'')"
    by (rule stop_monitoring_idle [OF new_monitor_idle])
  have d: "start_monitoring source_tables ''ECONOMY'' 2000 2000 standard_run =
             (Returned False, standard_run)"
    by (rule start_monitoring_active [OF standard_run_active])
  have e: "start_monitoring source_tables ''BOGUS'' 1000 1000 (new_monitor ''STANDARD'') =
     (Raised (KeyError ''BOGUS''), bogus_run)"
    using start_monitoring_unknown_profile
      [OF new_monitor_idle [of "''STANDARD''"] bogus_unknown, where tm = 1000 and ts = 1000]
    by (simp add: bogus_run_def)
  from a b c' c d e standard_run_start standard_run_stop show ?thesis
    by (simp add: new_monitor_fields standard_run_fields)
qed

text \<open>
  C7 as stated fails for a start that raises: on a new monitor, whose saved document is
  the in-memory one, a start with a name the catalog lacks rewrites the document and
  raises before the save, so the last saved document is no longer the in-memory one.
\<close>

theorem failed_start_is_not_saved:
  "saved (new_monitor ''STANDARD'') = [monitoring_data (new_monitor ''STANDARD'')] \<and>
   fst (start_monitoring source_tables ''BOGUS'' 1000 1000 (new_monitor ''STANDARD'')) =
     Raised (KeyError ''BOGUS'') \<and>
   saved (snd (start_monitoring source_tables ''BOGUS'' 1000 1000 (new_monitor ''STANDARD''))) =
     [monitoring_data (new_monitor ''STANDARD'')] \<and>
   monitoring_data
     (snd (start_monitoring source_tables ''BOGUS'' 1000 1000 (new_monitor ''STANDARD''))) \<noteq>
   monitoring_data (new_monitor ''STANDARD'')"
proof -
  note st = start_monitoring_unknown_profile
    [OF new_monitor_idle [of "''STANDARD''"] bogus_unknown, where tm = 1000 and ts = 1000]
  have a: "md_active_profile (metadata (monitoring_data
      (begin_session ''BOGUS'' 1000 1000 (new_monitor ''STANDARD'')))) = ''BOGUS''"
    by (simp add: begin_session_fields)
  have b: "md_active_profile (metadata (monitoring_data (new_monitor ''STANDARD''))) =
      ''STANDARD''"
    by (simp add: new_monitor_fields initial_document_def)
  have "monitoring_data (begin_session ''BOGUS'' 1000 1000 (new_monitor ''STANDARD''))
      \<noteq> monitoring_data (new_monitor ''STANDARD'')"
  proof
    assume "monitoring_data (begin_session ''BOGUS'' 1000 1000 (new_monitor ''STANDARD''))
      = monitoring_data (new_monitor ''STANDARD'')"
    then have "md_active_profile (metadata (monitoring_data
      (begin_session ''BOGUS'' 1000 1000 (new_monitor ''STANDARD'')))) =
      md_active_profile (metadata (monitoring_data (new_monitor ''STANDARD'')))"
      by (rule arg_cong)
    then show False unfolding a b by simp
  qed
  then show ?thesis
    by (simp add: st begin_session_fields(3) new_monitor_fields(2,3))
qed

section \<open>Which parameters a tick samples\<close>



end
